theory Spec2Isabelle
  imports Main
begin

section \<open>The row-level data-scope filter\<close>

text \<open>
  This theory embeds \<^verbatim>\<open>module_admin/aspect/data_scope.py\<close>: the class
  \<^verbatim>\<open>GetDataScope\<close>, whose \<^verbatim>\<open>__call__\<close> turns the roles of the current
  user into the text of an \<^verbatim>\<open>or_(...)\<close> expression. The data-access layer later
  hands that text to Python's \<^verbatim>\<open>eval\<close> inside a \<^verbatim>\<open>where(...)\<close>.

  The builder works on strings, so the embedding does too: every f-string of the source
  is a concatenation here, \<^verbatim>\<open>', '.join\<close> and \<^verbatim>\<open>dict.fromkeys\<close> are list
  functions, and the loop with its \<^verbatim>\<open>break\<close> is a recursion over the roles.
\<close>

subsection \<open>Python string formatting\<close>

text \<open>The decimal digits, and \<^verbatim>\<open>str\<close> of a non-negative integer.\<close>

definition digit_char :: "nat \<Rightarrow> char" where
  "digit_char d = ''0123456789'' ! (d mod 10)"

fun str_nat :: "nat \<Rightarrow> string" where
  "str_nat n = (if n < 10 then [digit_char n] else str_nat (n div 10) @ [digit_char (n mod 10)])"

declare str_nat.simps [simp del]

text \<open>Python integers are unbounded; a negative one prints with a leading minus sign.\<close>

definition py_str_int :: "int \<Rightarrow> string" where
  "py_str_int i = (if i < 0 then CHR ''-'' # str_nat (nat (- i)) else str_nat (nat i))"

text \<open>
  \<^verbatim>\<open>dept_id\<close> is a nullable column of \<^verbatim>\<open>sys_user\<close>; an f-string prints
  \<^verbatim>\<open>None\<close> as the four letters.
\<close>

definition py_str_opt :: "int option \<Rightarrow> string" where
  "py_str_opt v = (case v of None \<Rightarrow> ''None'' | Some i \<Rightarrow> py_str_int i)"

text \<open>\<^verbatim>\<open>sep.join(xs)\<close>.\<close>

fun py_join :: "string \<Rightarrow> string list \<Rightarrow> string" where
  "py_join sep [] = []"
| "py_join sep [x] = x"
| "py_join sep (x # y # ys) = x @ sep @ py_join sep (y # ys)"

text \<open>The \<^verbatim>\<open>repr\<close> of a list of integers, as an f-string prints it: \<^verbatim>\<open>[3, 7]\<close>.\<close>

definition py_repr_list :: "int list \<Rightarrow> string" where
  "py_repr_list xs = ''['' @ py_join '', '' (map py_str_int xs) @ '']''"

text \<open>
  \<^verbatim>\<open>list(dict.fromkeys(xs))\<close>: the keys are inserted one by one, a key that is
  already present keeps its place, so the first occurrence of every element survives,
  in order.
\<close>

primrec fromkeys_loop :: "'a list \<Rightarrow> 'a list \<Rightarrow> 'a list" where
  "fromkeys_loop keys [] = keys"
| "fromkeys_loop keys (x # xs) = fromkeys_loop (if x \<in> set keys then keys else keys @ [x]) xs"

definition dict_fromkeys :: "'a list \<Rightarrow> 'a list" where
  "dict_fromkeys xs = fromkeys_loop [] xs"

subsection \<open>The data model\<close>

text \<open>
  A role as the builder reads it: \<^verbatim>\<open>role_id\<close> and \<^verbatim>\<open>data_scope\<close>. The scope
  is a string, compared with the five constants of the class; any other string is an
  unrecognised scope.
\<close>

record role_model =
  role_id :: int
  data_scope :: string

text \<open>
  \<^verbatim>\<open>current_user.user\<close>: the fields the builder reads. \<^verbatim>\<open>role\<close> is the list
  of roles the user holds, in the order the session resolver delivered them.
\<close>

record user_info_model =
  user_id :: int
  dept_id :: "int option"
  admin :: bool
  role :: "role_model list"

text \<open>The four constructor arguments of \<^verbatim>\<open>GetDataScope\<close>.\<close>

record GetDataScope =
  query_alias :: string
  db_alias :: string
  user_alias :: string
  dept_alias :: string

definition DATA_SCOPE_ALL :: string where "DATA_SCOPE_ALL = ''1''"
definition DATA_SCOPE_CUSTOM :: string where "DATA_SCOPE_CUSTOM = ''2''"
definition DATA_SCOPE_DEPT :: string where "DATA_SCOPE_DEPT = ''3''"
definition DATA_SCOPE_DEPT_AND_CHILD :: string where "DATA_SCOPE_DEPT_AND_CHILD = ''4''"
definition DATA_SCOPE_SELF :: string where "DATA_SCOPE_SELF = ''5''"

text \<open>
  The instance the user endpoints depend on, \<^verbatim>\<open>GetDataScope('SysUser')\<close>
  (\<^verbatim>\<open>user_controller.py\<close>), with the defaults of the constructor.
\<close>

definition SysUser_scope :: GetDataScope where
  "SysUser_scope =
     \<lparr>query_alias = ''SysUser'', db_alias = ''db'', user_alias = ''user_id'', dept_alias = ''dept_id''\<rparr>"

subsection \<open>The clause templates\<close>

text \<open>
  One definition per f-string of the source (lines 94, 99, 104, 110 and 115), character
  for character; \<^term>\<open>CHR 0x27\<close> is the single quote around the attribute name in
  \<^verbatim>\<open>hasattr(Model, 'dept_id')\<close>.
\<close>

definition sql_true :: string where "sql_true = ''1 == 1''"
definition sql_false :: string where "sql_false = ''1 == 0''"

definition sql_custom_many :: "GetDataScope \<Rightarrow> int list \<Rightarrow> string" where
  "sql_custom_many self ids =
     query_alias self @ ''.'' @ dept_alias self
     @ ''.in_(select(SysRoleDept.dept_id).where(SysRoleDept.role_id.in_('' @ py_repr_list ids
     @ ''))) if hasattr('' @ query_alias self @ '', '' @ CHR 0x27 # dept_alias self
     @ CHR 0x27 # '') else 1 == 0''"

definition sql_custom_one :: "GetDataScope \<Rightarrow> int \<Rightarrow> string" where
  "sql_custom_one self rid =
     query_alias self @ ''.'' @ dept_alias self
     @ ''.in_(select(SysRoleDept.dept_id).where(SysRoleDept.role_id == '' @ py_str_int rid
     @ '')) if hasattr('' @ query_alias self @ '', '' @ CHR 0x27 # dept_alias self
     @ CHR 0x27 # '') else 1 == 0''"

definition sql_dept :: "GetDataScope \<Rightarrow> int option \<Rightarrow> string" where
  "sql_dept self did =
     query_alias self @ ''.'' @ dept_alias self @ '' == '' @ py_str_opt did
     @ '' if hasattr('' @ query_alias self @ '', '' @ CHR 0x27 # dept_alias self
     @ CHR 0x27 # '') else 1 == 0''"

definition sql_dept_and_child :: "GetDataScope \<Rightarrow> int option \<Rightarrow> string" where
  "sql_dept_and_child self did =
     query_alias self @ ''.'' @ dept_alias self
     @ ''.in_(select(SysDept.dept_id).where(or_(SysDept.dept_id == '' @ py_str_opt did
     @ '', func.find_in_set('' @ py_str_opt did
     @ '', SysDept.ancestors)))) if hasattr('' @ query_alias self @ '', ''
     @ CHR 0x27 # dept_alias self @ CHR 0x27 # '') else 1 == 0''"

definition sql_self :: "GetDataScope \<Rightarrow> int \<Rightarrow> string" where
  "sql_self self uid =
     query_alias self @ ''.'' @ user_alias self @ '' == '' @ py_str_int uid
     @ '' if hasattr('' @ query_alias self @ '', '' @ CHR 0x27 # user_alias self
     @ CHR 0x27 # '') else 1 == 0''"

subsection \<open>The builder\<close>

text \<open>Lines 75 to 77: the ids of the roles whose scope is CUSTOM, over all roles.\<close>

definition custom_data_scope_role_id_list :: "user_info_model \<Rightarrow> int list" where
  "custom_data_scope_role_id_list cu =
     map role_id (filter (\<lambda>item. data_scope item = DATA_SCOPE_CUSTOM) (role cu))"

text \<open>
  The \<^verbatim>\<open>elif\<close> chain of lines 89 to 119: the clause one role appends when the
  test of line 85 has failed.
\<close>

definition role_sql :: "GetDataScope \<Rightarrow> user_info_model \<Rightarrow> int list \<Rightarrow> role_model \<Rightarrow> string" where
  "role_sql self cu custom r =
     (if data_scope r = DATA_SCOPE_CUSTOM then
        (if length custom > 1 then sql_custom_many self custom
         else sql_custom_one self (role_id r))
      else if data_scope r = DATA_SCOPE_DEPT then sql_dept self (dept_id cu)
      else if data_scope r = DATA_SCOPE_DEPT_AND_CHILD then sql_dept_and_child self (dept_id cu)
      else if data_scope r = DATA_SCOPE_SELF then sql_self self (user_id cu)
      else sql_false)"

text \<open>
  The loop of lines 82 to 119 over the remaining roles, with the list built so far.
  Line 85 tests the administrator flag and the ALL scope inside the loop, once per role;
  when it succeeds the list is replaced by the single always-true clause and the loop
  ends (\<^verbatim>\<open>break\<close>).
\<close>

fun scope_loop ::
  "GetDataScope \<Rightarrow> user_info_model \<Rightarrow> int list \<Rightarrow> role_model list \<Rightarrow> string list \<Rightarrow> string list"
where
  "scope_loop self cu custom [] param_sql_list = param_sql_list"
| "scope_loop self cu custom (r # rs) param_sql_list =
     (if admin cu \<or> data_scope r = DATA_SCOPE_ALL then [sql_true]
      else scope_loop self cu custom rs (param_sql_list @ [role_sql self cu custom r]))"

text \<open>The list after the loop (line 120) and after the deduplication of line 122.\<close>

definition collected_sql_list :: "GetDataScope \<Rightarrow> user_info_model \<Rightarrow> string list" where
  "collected_sql_list self cu =
     scope_loop self cu (custom_data_scope_role_id_list cu) (role cu) []"

definition param_sql_list :: "GetDataScope \<Rightarrow> user_info_model \<Rightarrow> string list" where
  "param_sql_list self cu = dict_fromkeys (collected_sql_list self cu)"

text \<open>Line 126: the value \<^verbatim>\<open>__call__\<close> returns.\<close>

definition GetDataScope_call :: "GetDataScope \<Rightarrow> user_info_model \<Rightarrow> string" where
  "GetDataScope_call self cu = ''or_('' @ py_join '', '' (param_sql_list self cu) @ '')''"

subsection \<open>What the returned text means\<close>

text \<open>
  The text is an expression \<^verbatim>\<open>or_(c1, ..., cn)\<close>. A row passes when one of the
  operands holds for it. With no operand at all the answer is the query engine's, not
  the builder's, so it is a parameter here: \<open>empty_or\<close> is what the engine makes of
  \<^verbatim>\<open>or_()\<close>. The reading of a single operand is a parameter as well
  (\<open>holds\<close>), so that statements about the combination do not depend on how each
  clause is read.
\<close>

definition or_admits :: "bool \<Rightarrow> (string \<Rightarrow> 'row \<Rightarrow> bool) \<Rightarrow> string list \<Rightarrow> 'row \<Rightarrow> bool" where
  "or_admits empty_or holds cs row =
     (if cs = [] then empty_or else list_ex (\<lambda>c. holds c row) cs)"

text \<open>
  In the data-access layer the value of the text is one argument of
  \<^verbatim>\<open>select(...).where(...)\<close>, next to the conditions of the query itself.
  SQLAlchemy builds \<^verbatim>\<open>or_()\<close> without operands as an empty clause list, which
  renders as nothing: \<^verbatim>\<open>where\<close> then adds no condition, and no row is
  excluded. This is the reading of the empty OR under which the text is used.
\<close>

definition where_admits :: "(string \<Rightarrow> 'row \<Rightarrow> bool) \<Rightarrow> string list \<Rightarrow> 'row \<Rightarrow> bool" where
  "where_admits holds cs row = or_admits True holds cs row"

text \<open>
  The clauses themselves are Python conditional expressions around SQLAlchemy column
  expressions. Their structure, with the attribute name each one probes:
  \<^item> \<open>Col_eq f v\<close> is \<^verbatim>\<open>Model.f == v\<close>;
  \<^item> \<open>Col_in_role_depts_many f ids\<close> is
    \<^verbatim>\<open>Model.f.in_(select(SysRoleDept.dept_id).where(SysRoleDept.role_id.in_(ids)))\<close>;
  \<^item> \<open>Col_in_role_depts_one f rid\<close> is the same with \<^verbatim>\<open>SysRoleDept.role_id == rid\<close>;
  \<^item> \<open>Col_in_dept_tree f v\<close> is
    \<^verbatim>\<open>Model.f.in_(select(SysDept.dept_id).where(or_(SysDept.dept_id == v, func.find_in_set(v, SysDept.ancestors))))\<close>;
  \<^item> \<open>If_hasattr e\<close> is \<^verbatim>\<open>e if hasattr(Model, 'f') else 1 == 0\<close>.
\<close>

datatype sql_expr =
    Col_eq string "int option"
  | Col_in_role_depts_many string "int list"
  | Col_in_role_depts_one string int
  | Col_in_dept_tree string "int option"

datatype py_expr = Py_true | Py_false | If_hasattr sql_expr

fun column_of :: "sql_expr \<Rightarrow> string" where
  "column_of (Col_eq f v) = f"
| "column_of (Col_in_role_depts_many f ids) = f"
| "column_of (Col_in_role_depts_one f rid) = f"
| "column_of (Col_in_dept_tree f v) = f"

text \<open>The text of an expression, for the model class named \<open>q\<close>.\<close>

fun render_sql :: "string \<Rightarrow> sql_expr \<Rightarrow> string" where
  "render_sql q (Col_eq f v) = q @ ''.'' @ f @ '' == '' @ py_str_opt v"
| "render_sql q (Col_in_role_depts_many f ids) =
     q @ ''.'' @ f @ ''.in_(select(SysRoleDept.dept_id).where(SysRoleDept.role_id.in_(''
     @ py_repr_list ids @ '')))''"
| "render_sql q (Col_in_role_depts_one f rid) =
     q @ ''.'' @ f @ ''.in_(select(SysRoleDept.dept_id).where(SysRoleDept.role_id == ''
     @ py_str_int rid @ ''))''"
| "render_sql q (Col_in_dept_tree f v) =
     q @ ''.'' @ f @ ''.in_(select(SysDept.dept_id).where(or_(SysDept.dept_id == ''
     @ py_str_opt v @ '', func.find_in_set('' @ py_str_opt v @ '', SysDept.ancestors))))''"

fun render :: "string \<Rightarrow> py_expr \<Rightarrow> string" where
  "render q Py_true = ''1 == 1''"
| "render q Py_false = ''1 == 0''"
| "render q (If_hasattr e) =
     render_sql q e @ '' if hasattr('' @ q @ '', '' @ CHR 0x27 # column_of e
     @ CHR 0x27 # '') else 1 == 0''"

text \<open>
  The structured form of the clause a role appends: the same \<^verbatim>\<open>elif\<close> chain as
  \<open>role_sql\<close>, building the expression instead of its text.
\<close>

definition role_clause :: "GetDataScope \<Rightarrow> user_info_model \<Rightarrow> int list \<Rightarrow> role_model \<Rightarrow> py_expr" where
  "role_clause self cu custom r =
     (if data_scope r = DATA_SCOPE_CUSTOM then
        (if length custom > 1 then If_hasattr (Col_in_role_depts_many (dept_alias self) custom)
         else If_hasattr (Col_in_role_depts_one (dept_alias self) (role_id r)))
      else if data_scope r = DATA_SCOPE_DEPT then If_hasattr (Col_eq (dept_alias self) (dept_id cu))
      else if data_scope r = DATA_SCOPE_DEPT_AND_CHILD then
        If_hasattr (Col_in_dept_tree (dept_alias self) (dept_id cu))
      else if data_scope r = DATA_SCOPE_SELF then
        If_hasattr (Col_eq (user_alias self) (Some (user_id cu)))
      else Py_false)"

subsection \<open>Evaluating a clause on a row\<close>

text \<open>
  The builder only writes the text; the data-access layer evaluates it
  (\<^verbatim>\<open>eval(data_scope_sql)\<close> in \<^verbatim>\<open>dept_dao.py\<close>, \<^verbatim>\<open>role_dao.py\<close> and
  \<^verbatim>\<open>user_dao.py\<close>). What follows is the behaviour the text relies on there:
  Python's conditional expression and attribute access, SQL's \<^verbatim>\<open>IN\<close> and
  equality on a nullable column, and MySQL's \<^verbatim>\<open>FIND_IN_SET\<close>.

  The two tables the clauses query. A row of \<^verbatim>\<open>sys_role_dept\<close> is a pair
  (role id, department id): the departments granted to a CUSTOM role. A row of
  \<^verbatim>\<open>sys_dept\<close> is a pair (department id, ancestors), where ancestors is the
  comma separated list of the ids from the root to the parent, as
  \<^verbatim>\<open>dept_service.py\<close> builds it (\<^verbatim>\<open>f'{parent.ancestors},{parent_id}'\<close>).
\<close>

record database =
  sys_role_dept :: "(int \<times> int) list"
  sys_dept :: "(int \<times> string) list"

text \<open>
  A row of the entity under query, seen through the model class: \<open>row f = None\<close>
  when the class has no attribute \<open>f\<close> (\<^verbatim>\<open>hasattr\<close> is false),
  \<open>Some None\<close> when the column is NULL, \<open>Some (Some v)\<close> when it holds \<open>v\<close>.
\<close>

type_synonym orm_row = "string \<Rightarrow> int option option"

datatype py_error = AttributeError string

text \<open>\<^verbatim>\<open>Model.f\<close>: Python raises AttributeError when the class lacks the attribute.\<close>

definition getattr :: "orm_row \<Rightarrow> string \<Rightarrow> py_error + int option" where
  "getattr row f = (case row f of None \<Rightarrow> Inl (AttributeError f) | Some v \<Rightarrow> Inr v)"

text \<open>The items of a comma separated list, as \<^verbatim>\<open>split(',')\<close> gives them.\<close>

fun split_commas :: "string \<Rightarrow> string list" where
  "split_commas [] = [[]]"
| "split_commas (c # cs) =
     (if c = CHR '','' then [] # split_commas cs
      else (c # hd (split_commas cs)) # tl (split_commas cs))"

text \<open>The position of the first item equal to \<open>s\<close>, counted from 1; 0 when there is none.\<close>

fun position_in :: "'a \<Rightarrow> 'a list \<Rightarrow> nat" where
  "position_in s [] = 0"
| "position_in s (x # xs) =
     (if x = s then 1 else (case position_in s xs of 0 \<Rightarrow> 0 | Suc k \<Rightarrow> Suc (Suc k)))"

text \<open>
  MySQL's \<^verbatim>\<open>FIND_IN_SET(s, strlist)\<close>: the position of \<open>s\<close> among the items of
  \<open>strlist\<close>, 0 when it is not there or when \<open>strlist\<close> is the empty string. A
  WHERE clause takes a non-zero result as true.
\<close>

definition find_in_set :: "string \<Rightarrow> string \<Rightarrow> nat" where
  "find_in_set s strlist = (if strlist = [] then 0 else position_in s (split_commas strlist))"

text \<open>
  \<^verbatim>\<open>select(SysRoleDept.dept_id).where(...)\<close>: the departments of the rows whose
  role id passes the test.
\<close>

definition select_role_depts :: "database \<Rightarrow> (int \<Rightarrow> bool) \<Rightarrow> int list" where
  "select_role_depts db p = map snd (filter (\<lambda>rd. p (fst rd)) (sys_role_dept db))"

text \<open>
  \<^verbatim>\<open>select(SysDept.dept_id).where(or_(SysDept.dept_id == v, func.find_in_set(v, SysDept.ancestors)))\<close>.
  The integer \<open>v\<close> is compared as its decimal text with the items of the list; a NULL
  \<open>v\<close> matches no department.
\<close>

definition select_dept_tree :: "database \<Rightarrow> int option \<Rightarrow> int list" where
  "select_dept_tree db v =
     (case v of
        None \<Rightarrow> []
      | Some k \<Rightarrow>
          map fst (filter (\<lambda>d. fst d = k \<or> find_in_set (py_str_int k) (snd d) \<noteq> 0) (sys_dept db)))"

text \<open>\<^verbatim>\<open>column IN (subquery)\<close>: a NULL column is in no list.\<close>

definition sql_in :: "int option \<Rightarrow> int list \<Rightarrow> bool" where
  "sql_in x ids = (case x of None \<Rightarrow> False | Some k \<Rightarrow> k \<in> set ids)"

text \<open>
  Whether a column expression holds for a row. \<^verbatim>\<open>column == v\<close> with a NULL
  \<open>v\<close> is \<^verbatim>\<open>IS NULL\<close> in SQLAlchemy, so equality of the two optional values is
  the test in both cases. Reaching for a missing attribute is an error.
\<close>

fun sql_holds :: "database \<Rightarrow> orm_row \<Rightarrow> sql_expr \<Rightarrow> py_error + bool" where
  "sql_holds db row (Col_eq f v) =
     (case getattr row f of Inl e \<Rightarrow> Inl e | Inr x \<Rightarrow> Inr (x = v))"
| "sql_holds db row (Col_in_role_depts_many f ids) =
     (case getattr row f of Inl e \<Rightarrow> Inl e
      | Inr x \<Rightarrow> Inr (sql_in x (select_role_depts db (\<lambda>rid. rid \<in> set ids))))"
| "sql_holds db row (Col_in_role_depts_one f rid) =
     (case getattr row f of Inl e \<Rightarrow> Inl e
      | Inr x \<Rightarrow> Inr (sql_in x (select_role_depts db (\<lambda>rid'. rid' = rid))))"
| "sql_holds db row (Col_in_dept_tree f v) =
     (case getattr row f of Inl e \<Rightarrow> Inl e
      | Inr x \<Rightarrow> Inr (sql_in x (select_dept_tree db v)))"

text \<open>
  A Python conditional expression evaluates its condition first and only then the
  branch it selects.
\<close>

fun py_holds :: "database \<Rightarrow> orm_row \<Rightarrow> py_expr \<Rightarrow> py_error + bool" where
  "py_holds db row Py_true = Inr True"
| "py_holds db row Py_false = Inr False"
| "py_holds db row (If_hasattr e) =
     (if row (column_of e) \<noteq> None then sql_holds db row e else Inr False)"

text \<open>
  A reading of clause texts through their structure: the text \<open>c\<close> holds on a row
  when one of the expressions \<open>es\<close> is written \<open>c\<close> and evaluates to true.
\<close>

definition clause_reading ::
  "GetDataScope \<Rightarrow> py_expr list \<Rightarrow> database \<Rightarrow> string \<Rightarrow> orm_row \<Rightarrow> bool" where
  "clause_reading self es db c row =
     list_ex (\<lambda>e. render (query_alias self) e = c \<and> py_holds db row e = Inr True) es"

subsection \<open>Sample inputs\<close>

text \<open>
  A user of department 5 with user id 2, and a small database: roles 20, 21 and 22 are
  granted departments 3, 7 and 9; department 12 is a child of 5, department 13 a child
  of 12, departments 99 and 50 hang under 7 and 55.
\<close>

definition sample_user :: "bool \<Rightarrow> role_model list \<Rightarrow> user_info_model" where
  "sample_user a rs = \<lparr>user_id = 2, dept_id = Some 5, admin = a, role = rs\<rparr>"

definition sample_db :: database where
  "sample_db =
     \<lparr>sys_role_dept = [(20, 3), (21, 7), (22, 9)],
      sys_dept = [(5, ''0''), (12, ''0,5''), (13, ''0,5,12''), (99, ''0,7''), (50, ''0,55'')]\<rparr>"

subsection \<open>The shape of the result\<close>

text \<open>The clause texts a call for this user can contain.\<close>

definition is_clause_template :: "GetDataScope \<Rightarrow> user_info_model \<Rightarrow> string \<Rightarrow> bool" where
  "is_clause_template self cu c \<longleftrightarrow>
     c = sql_true
     \<or> c = sql_custom_many self (custom_data_scope_role_id_list cu)
     \<or> list_ex (\<lambda>r. c = sql_custom_one self (role_id r)) (role cu)
     \<or> c = sql_dept self (dept_id cu)
     \<or> c = sql_dept_and_child self (dept_id cu)
     \<or> c = sql_self self (user_id cu)
     \<or> c = sql_false"

text \<open>
  The test of line 85 succeeds at some role exactly when the user holds a role and is
  an administrator, or holds a role of scope ALL.
\<close>

definition short_circuits :: "user_info_model \<Rightarrow> role_model list \<Rightarrow> bool" where
  "short_circuits cu rs \<longleftrightarrow>
     (admin cu \<and> rs \<noteq> []) \<or> list_ex (\<lambda>r. data_scope r = DATA_SCOPE_ALL) rs"

section \<open>Properties of the helpers\<close>

lemmas DATA_SCOPE_defs =
  DATA_SCOPE_ALL_def DATA_SCOPE_CUSTOM_def DATA_SCOPE_DEPT_def
  DATA_SCOPE_DEPT_AND_CHILD_def DATA_SCOPE_SELF_def

text \<open>The equations that evaluate a call on a concrete user.\<close>

lemmas eval_defs =
  GetDataScope_call_def param_sql_list_def collected_sql_list_def
  custom_data_scope_role_id_list_def DATA_SCOPE_defs role_sql_def dict_fromkeys_def
  sql_dept_def sql_custom_many_def sql_custom_one_def sql_dept_and_child_def sql_self_def
  sql_false_def sql_true_def py_repr_list_def py_str_opt_def py_str_int_def str_nat.simps
  digit_char_def SysUser_scope_def

subsection \<open>Deduplication\<close>

lemma fromkeys_loop_set: "set (fromkeys_loop keys xs) = set keys \<union> set xs"
  by (induction xs arbitrary: keys) auto

lemma fromkeys_loop_distinct: "distinct keys \<Longrightarrow> distinct (fromkeys_loop keys xs)"
  by (induction xs arbitrary: keys) auto

lemma fromkeys_loop_length: "length (fromkeys_loop keys xs) \<le> length keys + length xs"
proof (induction xs arbitrary: keys)
  case Nil
  show ?case by simp
next
  case (Cons x xs)
  have "length (fromkeys_loop (if x \<in> set keys then keys else keys @ [x]) xs)
        \<le> length (if x \<in> set keys then keys else keys @ [x]) + length xs"
    by (rule Cons.IH)
  also have "\<dots> \<le> length keys + length (x # xs)" by simp
  finally show ?case by simp
qed

lemma dict_fromkeys_set [simp]: "set (dict_fromkeys xs) = set xs"
  by (simp add: dict_fromkeys_def fromkeys_loop_set)

lemma dict_fromkeys_distinct [simp]: "distinct (dict_fromkeys xs)"
  by (simp add: dict_fromkeys_def fromkeys_loop_distinct)

lemma dict_fromkeys_length: "length (dict_fromkeys xs) \<le> length xs"
  using fromkeys_loop_length [of "[]" xs] by (simp add: dict_fromkeys_def)

lemma dict_fromkeys_Nil [simp]: "dict_fromkeys [] = []"
  by (simp add: dict_fromkeys_def)

lemma dict_fromkeys_single [simp]: "dict_fromkeys [x] = [x]"
  by (simp add: dict_fromkeys_def)

lemma dict_fromkeys_eq_Nil [simp]: "dict_fromkeys xs = [] \<longleftrightarrow> xs = []"
  using dict_fromkeys_set [of xs] by (metis set_empty)

lemma count_list_distinct:
  "distinct xs \<Longrightarrow> x \<in> set xs \<Longrightarrow> count_list xs x = 1"
  by (induction xs) auto

lemma distinct_set_single:
  "distinct xs \<Longrightarrow> set xs = {x} \<Longrightarrow> xs = [x]"
proof (cases xs)
  case Nil
  assume "set xs = {x}"
  with Nil show ?thesis by simp
next
  case (Cons a ys)
  assume d: "distinct xs" and s: "set xs = {x}"
  from s Cons have "a = x" by auto
  moreover from d s Cons \<open>a = x\<close> have "ys = []" by (cases ys) auto
  ultimately show ?thesis using Cons by simp
qed

subsection \<open>The two ways the loop ends\<close>

lemma scope_loop_break:
  "short_circuits cu rs \<Longrightarrow> scope_loop self cu custom rs acc = [sql_true]"
proof (induction rs arbitrary: acc)
  case Nil
  then show ?case by (simp add: short_circuits_def)
next
  case (Cons r rs)
  show ?case
  proof (cases "admin cu \<or> data_scope r = DATA_SCOPE_ALL")
    case True
    then show ?thesis by simp
  next
    case False
    with Cons.prems have "short_circuits cu rs"
      by (auto simp: short_circuits_def)
    with False Cons.IH show ?thesis by simp
  qed
qed

lemma scope_loop_no_break:
  "\<not> short_circuits cu rs \<Longrightarrow>
   scope_loop self cu custom rs acc = acc @ map (role_sql self cu custom) rs"
proof (induction rs arbitrary: acc)
  case Nil
  show ?case by simp
next
  case (Cons r rs)
  from Cons.prems have here: "\<not> (admin cu \<or> data_scope r = DATA_SCOPE_ALL)"
    and rest: "\<not> short_circuits cu rs"
    by (auto simp: short_circuits_def)
  from here have "scope_loop self cu custom (r # rs) acc
        = scope_loop self cu custom rs (acc @ [role_sql self cu custom r])"
    by simp
  also have "\<dots> = (acc @ [role_sql self cu custom r]) @ map (role_sql self cu custom) rs"
    using rest by (rule Cons.IH)
  finally show ?case by simp
qed

lemma no_break_iff:
  "\<not> short_circuits cu (role cu) \<longleftrightarrow>
     role cu = [] \<or> (\<not> admin cu \<and> (\<forall>r \<in> set (role cu). data_scope r \<noteq> DATA_SCOPE_ALL))"
  by (auto simp: short_circuits_def list_ex_iff)

lemma collected_break:
  "short_circuits cu (role cu) \<Longrightarrow> collected_sql_list self cu = [sql_true]"
  by (simp add: collected_sql_list_def scope_loop_break)

lemma collected_no_break:
  "\<not> short_circuits cu (role cu) \<Longrightarrow>
   collected_sql_list self cu = map (role_sql self cu (custom_data_scope_role_id_list cu)) (role cu)"
  by (simp add: collected_sql_list_def scope_loop_no_break)

lemma param_sql_list_break:
  "short_circuits cu (role cu) \<Longrightarrow> param_sql_list self cu = [sql_true]"
  by (simp add: param_sql_list_def collected_break)

lemma param_sql_list_no_roles:
  "role cu = [] \<Longrightarrow> param_sql_list self cu = []"
  by (simp add: param_sql_list_def collected_sql_list_def)

lemma call_break:
  "short_circuits cu (role cu) \<Longrightarrow> GetDataScope_call self cu = ''or_(1 == 1)''"
  by (simp add: GetDataScope_call_def param_sql_list_break sql_true_def)

text \<open>
  An administrator who holds a role, whatever its scope, gets the always-true
  predicate.
\<close>

lemma admin_with_a_role:
  "admin cu \<Longrightarrow> role cu \<noteq> [] \<Longrightarrow> GetDataScope_call self cu = ''or_(1 == 1)''"
  by (rule call_break) (simp add: short_circuits_def)

subsection \<open>The result as a list of clauses\<close>

lemma role_sql_template:
  "r \<in> set (role cu) \<Longrightarrow>
   is_clause_template self cu (role_sql self cu (custom_data_scope_role_id_list cu) r)"
  by (auto simp: is_clause_template_def role_sql_def list_ex_iff)

lemma param_sql_list_templates:
  "list_all (is_clause_template self cu) (param_sql_list self cu)"
proof (cases "short_circuits cu (role cu)")
  case True
  then show ?thesis
    by (simp add: param_sql_list_break is_clause_template_def)
next
  case False
  then show ?thesis
    by (auto simp: param_sql_list_def collected_no_break list_all_iff role_sql_template)
qed

lemma param_sql_list_length:
  "length (param_sql_list self cu) \<le> length (role cu)"
proof (cases "short_circuits cu (role cu)")
  case True
  then have "role cu \<noteq> []" by (auto simp: short_circuits_def)
  then have "1 \<le> length (role cu)" by (cases "role cu") simp_all
  with True show ?thesis by (simp add: param_sql_list_break)
next
  case False
  have "length (param_sql_list self cu) \<le> length (collected_sql_list self cu)"
    unfolding param_sql_list_def by (rule dict_fromkeys_length)
  with False show ?thesis by (simp add: collected_no_break)
qed

lemma or_admits_cong_set:
  "set cs = set ds \<Longrightarrow> or_admits e0 holds cs row = or_admits e0 holds ds row"
  by (auto simp: or_admits_def list_ex_iff)

lemma or_admits_dict_fromkeys:
  "or_admits e0 holds (dict_fromkeys cs) row = or_admits e0 holds cs row"
  by (rule or_admits_cong_set) simp

subsection \<open>The structured clauses and their text\<close>

text \<open>The text of the structured clause of a role is the text the loop appends.\<close>

lemma render_role_clause:
  "render (query_alias self) (role_clause self cu custom r) = role_sql self cu custom r"
  by (simp add: role_clause_def role_sql_def sql_custom_many_def sql_custom_one_def sql_dept_def
      sql_dept_and_child_def sql_self_def sql_false_def py_str_opt_def)

lemma sql_holds_missing:
  "row (column_of e) = None \<Longrightarrow> sql_holds db row e = Inl (AttributeError (column_of e))"
  by (cases e) (simp_all add: getattr_def)

lemma py_holds_col_eq:
  "py_holds db row (If_hasattr (Col_eq f v)) = Inr (row f = Some v)"
  by (auto simp: getattr_def split: option.splits)

lemma select_role_depts_iff:
  "d \<in> set (select_role_depts db p) \<longleftrightarrow> (\<exists>rid. p rid \<and> (rid, d) \<in> set (sys_role_dept db))"
  by (force simp: select_role_depts_def)

lemma py_holds_role_depts_many:
  "py_holds db row (If_hasattr (Col_in_role_depts_many f ids))
   = Inr (\<exists>d. row f = Some (Some d) \<and> (\<exists>rid \<in> set ids. (rid, d) \<in> set (sys_role_dept db)))"
  by (auto simp: getattr_def sql_in_def select_role_depts_iff split: option.splits)

lemma py_holds_role_depts_one:
  "py_holds db row (If_hasattr (Col_in_role_depts_one f rid))
   = Inr (\<exists>d. row f = Some (Some d) \<and> (rid, d) \<in> set (sys_role_dept db))"
  by (auto simp: getattr_def sql_in_def select_role_depts_iff split: option.splits)

subsection \<open>Decimal text and comma separated lists\<close>

lemma str_nat_not_Nil: "str_nat n \<noteq> []"
  by (subst str_nat.simps) simp

lemma py_str_int_not_Nil: "py_str_int k \<noteq> []"
  by (simp add: py_str_int_def str_nat_not_Nil)

lemma digit_char_digit: "digit_char d \<in> set ''0123456789''"
proof -
  have "d mod 10 < length ''0123456789''" by simp
  then show ?thesis unfolding digit_char_def by (rule nth_mem)
qed

lemma digit_char_inj:
  assumes "a < 10" and "b < 10" and "digit_char a = digit_char b"
  shows "a = b"
proof -
  have d: "distinct ''0123456789''" by simp
  from assms(1,2) have "a < length ''0123456789''" "b < length ''0123456789''" by simp_all
  with d assms(3) assms(1,2) show ?thesis
    by (simp add: digit_char_def nth_eq_iff_index_eq)
qed

lemma str_nat_digits: "set (str_nat n) \<subseteq> set ''0123456789''"
proof (induction n rule: str_nat.induct)
  case (1 n)
  show ?case
  proof (cases "n < 10")
    case True
    then have "str_nat n = [digit_char n]" by (subst str_nat.simps) simp
    with digit_char_digit [of n] show ?thesis by simp
  next
    case False
    then have "str_nat n = str_nat (n div 10) @ [digit_char (n mod 10)]"
      by (subst str_nat.simps) simp
    with 1 False digit_char_digit [of "n mod 10"] show ?thesis by simp
  qed
qed

text \<open>Different numbers print differently.\<close>

lemma str_nat_inj: "str_nat n = str_nat m \<Longrightarrow> n = m"
proof (induction n arbitrary: m rule: str_nat.induct)
  case (1 n)
  show ?case
  proof (cases "n < 10")
    case True
    then have n: "str_nat n = [digit_char n]" by (subst str_nat.simps) simp
    show ?thesis
    proof (cases "m < 10")
      case mt: True
      then have "str_nat m = [digit_char m]" by (subst str_nat.simps) simp
      with n "1.prems" have "digit_char n = digit_char m" by simp
      with True mt show ?thesis by (rule digit_char_inj)
    next
      case mf: False
      then have "str_nat m = str_nat (m div 10) @ [digit_char (m mod 10)]"
        by (subst str_nat.simps) simp
      with n "1.prems" have "str_nat (m div 10) = []" by simp
      with str_nat_not_Nil show ?thesis by blast
    qed
  next
    case False
    then have n: "str_nat n = str_nat (n div 10) @ [digit_char (n mod 10)]"
      by (subst str_nat.simps) simp
    show ?thesis
    proof (cases "m < 10")
      case mt: True
      then have "str_nat m = [digit_char m]" by (subst str_nat.simps) simp
      with n "1.prems" have "str_nat (n div 10) = []" by simp
      with str_nat_not_Nil show ?thesis by blast
    next
      case mf: False
      then have "str_nat m = str_nat (m div 10) @ [digit_char (m mod 10)]"
        by (subst str_nat.simps) simp
      with n "1.prems" have e: "str_nat (n div 10) = str_nat (m div 10)"
        and d: "digit_char (n mod 10) = digit_char (m mod 10)" by simp_all
      from "1.IH" [OF False e] have q: "n div 10 = m div 10" .
      have "n mod 10 < 10" "m mod 10 < 10" by simp_all
      then have r: "n mod 10 = m mod 10" using d by (rule digit_char_inj)
      from q r show ?thesis by (metis div_mult_mod_eq)
    qed
  qed
qed

lemma minus_not_digit: "CHR ''-'' \<notin> set (str_nat n)"
  using str_nat_digits [of n] by auto

lemma comma_not_digit: "CHR '','' \<notin> set (str_nat n)"
  using str_nat_digits [of n] by auto

lemma py_str_int_inj: "py_str_int a = py_str_int b \<Longrightarrow> a = b"
proof -
  assume e: "py_str_int a = py_str_int b"
  have neg_pos: False if "x < 0" "\<not> y < 0" "py_str_int x = py_str_int y" for x y
  proof -
    from that have "CHR ''-'' # str_nat (nat (- x)) = str_nat (nat y)"
      by (simp add: py_str_int_def)
    then have "CHR ''-'' \<in> set (str_nat (nat y))" by (metis list.set_intros(1))
    with minus_not_digit show False by blast
  qed
  show ?thesis
  proof (cases "a < 0")
    case True
    show ?thesis
    proof (cases "b < 0")
      case bt: True
      with True e have "str_nat (nat (- a)) = str_nat (nat (- b))" by (simp add: py_str_int_def)
      then have "nat (- a) = nat (- b)" by (rule str_nat_inj)
      with True bt show ?thesis by simp
    next
      case False
      with True e neg_pos show ?thesis by blast
    qed
  next
    case False
    show ?thesis
    proof (cases "b < 0")
      case True
      with False e neg_pos [of b a] show ?thesis by simp
    next
      case bf: False
      with False e have "str_nat (nat a) = str_nat (nat b)" by (simp add: py_str_int_def)
      then have "nat a = nat b" by (rule str_nat_inj)
      with False bf show ?thesis by simp
    qed
  qed
qed

lemma py_str_int_no_comma: "CHR '','' \<notin> set (py_str_int k)"
  by (simp add: py_str_int_def comma_not_digit)

lemma split_commas_item:
  "CHR '','' \<notin> set x \<Longrightarrow> split_commas (x @ CHR '','' # rest) = x # split_commas rest"
  by (induction x) auto

lemma split_commas_last_item:
  "CHR '','' \<notin> set x \<Longrightarrow> split_commas x = [x]"
  by (induction x) auto

lemma split_commas_join:
  "items \<noteq> [] \<Longrightarrow> \<forall>x \<in> set items. CHR '','' \<notin> set x \<Longrightarrow>
   split_commas (py_join '','' items) = items"
proof (induction "'',''" items rule: py_join.induct)
  case 1
  then show ?case by simp
next
  case (2 x)
  then show ?case by (simp add: split_commas_last_item)
next
  case (3 x y ys)
  then show ?case by (simp add: split_commas_item)
qed

text \<open>
  When the ancestors column is the comma separated text of a chain of ids, an id is
  among its items exactly when it is in the chain.
\<close>

lemma ancestors_items:
  "chain \<noteq> [] \<Longrightarrow>
   py_str_int k \<in> set (split_commas (py_join '','' (map py_str_int chain))) \<longleftrightarrow> k \<in> set chain"
proof -
  assume ne: "chain \<noteq> []"
  have "\<forall>x \<in> set (map py_str_int chain). CHR '','' \<notin> set x"
    by (auto simp: py_str_int_no_comma)
  with ne have "split_commas (py_join '','' (map py_str_int chain)) = map py_str_int chain"
    by (simp add: split_commas_join)
  then show ?thesis by (auto dest: py_str_int_inj)
qed

lemma position_in_zero_iff: "position_in s xs = 0 \<longleftrightarrow> s \<notin> set xs"
  by (induction xs) (auto split: nat.splits)

lemma position_in_pos_iff: "0 < position_in s xs \<longleftrightarrow> s \<in> set xs"
  using position_in_zero_iff [of s xs] by auto

lemma find_in_set_iff:
  "s \<noteq> [] \<Longrightarrow> find_in_set s strlist \<noteq> 0 \<longleftrightarrow> s \<in> set (split_commas strlist)"
  by (auto simp: find_in_set_def position_in_pos_iff)

lemma select_dept_tree_iff:
  "d \<in> set (select_dept_tree db (Some k)) \<longleftrightarrow>
     (\<exists>anc. (d, anc) \<in> set (sys_dept db) \<and> (d = k \<or> py_str_int k \<in> set (split_commas anc)))"
proof -
  have f: "0 < find_in_set (py_str_int k) anc \<longleftrightarrow> py_str_int k \<in> set (split_commas anc)"
    for anc
    using find_in_set_iff [OF py_str_int_not_Nil, of k anc] by simp
  have "d \<in> set (select_dept_tree db (Some k)) \<longleftrightarrow>
        (\<exists>p \<in> set (sys_dept db).
           (fst p = k \<or> py_str_int k \<in> set (split_commas (snd p))) \<and> fst p = d)"
    by (auto simp: select_dept_tree_def f)
  also have "\<dots> \<longleftrightarrow> (\<exists>anc. (d, anc) \<in> set (sys_dept db)
        \<and> (d = k \<or> py_str_int k \<in> set (split_commas anc)))"
    by force
  finally show ?thesis .
qed

lemma py_holds_dept_tree:
  "py_holds db row (If_hasattr (Col_in_dept_tree f (Some k)))
   = Inr (\<exists>d. row f = Some (Some d)
            \<and> (\<exists>anc. (d, anc) \<in> set (sys_dept db)
                  \<and> (d = k \<or> py_str_int k \<in> set (split_commas anc))))"
  by (auto simp: getattr_def sql_in_def select_dept_tree_iff split: option.splits)

lemma py_holds_dept_tree_None:
  "py_holds db row (If_hasattr (Col_in_dept_tree f None)) = Inr False"
  by (simp add: getattr_def sql_in_def select_dept_tree_def split: option.splits)

subsection \<open>The joined text\<close>

text \<open>The join, written without recursion: the first item, then every other item after a separator.\<close>

lemma py_join_Cons: "py_join sep (x # xs) = x @ concat (map (\<lambda>y. sep @ y) xs)"
  by (induction sep xs arbitrary: x rule: py_join.induct) simp_all

lemma call_text_nonempty:
  "param_sql_list self cu \<noteq> [] \<Longrightarrow>
   GetDataScope_call self cu
     = ''or_('' @ hd (param_sql_list self cu)
         @ concat (map (\<lambda>c. '', '' @ c) (tl (param_sql_list self cu))) @ '')''"
proof -
  assume "param_sql_list self cu \<noteq> []"
  then obtain c cs where "param_sql_list self cu = c # cs"
    by (cases "param_sql_list self cu") simp_all
  then show ?thesis by (simp add: GetDataScope_call_def py_join_Cons)
qed

text \<open>
  A user without roles, administrator or not: the text is \<^verbatim>\<open>or_()\<close>, and inside
  \<^verbatim>\<open>where\<close> it excludes no row.
\<close>

lemma no_roles_text:
  "role cu = [] \<Longrightarrow>
   GetDataScope_call self cu = ''or_()'' \<and> where_admits holds (param_sql_list self cu) row"
  by (simp add: GetDataScope_call_def param_sql_list_no_roles where_admits_def or_admits_def)

section \<open>The claims\<close>

subsection \<open>Administrators\<close>

text \<open>
  C1. An administrator is shown every row, whatever roles the user holds. With at
  least one role the test of line 85 succeeds at the first role, whatever its scope,
  and the call returns \<^verbatim>\<open>or_(1 == 1)\<close>, whose only operand is always true.
  With no role the body of the loop never runs and the call returns \<^verbatim>\<open>or_()\<close>;
  inside \<^verbatim>\<open>where\<close> an OR without operands adds no condition, so again no row
  is excluded. Either way the predicate restricts nothing: under every reading of the
  clauses that takes \<^verbatim>\<open>1 == 1\<close> as true, and under the structured reading.
\<close>

theorem admin_sees_every_row:
  assumes "admin cu"
  shows "(role cu \<noteq> [] \<longrightarrow>
            GetDataScope_call self cu = ''or_(1 == 1)'' \<and> param_sql_list self cu = [''1 == 1''])
       \<and> (role cu = [] \<longrightarrow>
            GetDataScope_call self cu = ''or_()'' \<and> param_sql_list self cu = [])
       \<and> (\<forall>holds row. holds ''1 == 1'' row \<longrightarrow> where_admits holds (param_sql_list self cu) row)
       \<and> (\<forall>db row. where_admits (clause_reading self [Py_true] db) (param_sql_list self cu) row)"
proof (cases "role cu = []")
  case True
  then have p: "param_sql_list self cu = []" by (rule param_sql_list_no_roles)
  have c: "GetDataScope_call self cu = ''or_()''"
    by (simp add: GetDataScope_call_def p)
  from True p c show ?thesis
    by (simp add: where_admits_def or_admits_def)
next
  case False
  with assms have sc: "short_circuits cu (role cu)" by (simp add: short_circuits_def)
  have p: "param_sql_list self cu = [''1 == 1'']"
    using param_sql_list_break [OF sc] by (simp add: sql_true_def)
  have c: "GetDataScope_call self cu = ''or_(1 == 1)''"
    using sc by (rule call_break)
  from False p c show ?thesis
    by (simp add: where_admits_def or_admits_def clause_reading_def)
qed

theorem admin_sees_every_row_witness:
  "admin (sample_user True [\<lparr>role_id = 10, data_scope = ''3''\<rparr>, \<lparr>role_id = 30, data_scope = ''9''\<rparr>])
   \<and> admin (sample_user True [])
   \<and> GetDataScope_call SysUser_scope
       (sample_user True [\<lparr>role_id = 10, data_scope = ''3''\<rparr>, \<lparr>role_id = 30, data_scope = ''9''\<rparr>])
     = ''or_(1 == 1)''
   \<and> GetDataScope_call SysUser_scope (sample_user True []) = ''or_()''
   \<and> where_admits (clause_reading SysUser_scope [Py_true] sample_db)
       (param_sql_list SysUser_scope
          (sample_user True [\<lparr>role_id = 10, data_scope = ''3''\<rparr>, \<lparr>role_id = 30, data_scope = ''9''\<rparr>]))
       [''dept_id'' \<mapsto> Some 99, ''user_id'' \<mapsto> Some 77]
   \<and> where_admits (clause_reading SysUser_scope [Py_true] sample_db)
       (param_sql_list SysUser_scope (sample_user True []))
       [''dept_id'' \<mapsto> Some 99, ''user_id'' \<mapsto> Some 77]"
proof -
  let ?a = "sample_user True [\<lparr>role_id = 10, data_scope = ''3''\<rparr>, \<lparr>role_id = 30, data_scope = ''9''\<rparr>]"
  let ?n = "sample_user True []"
  let ?row = "[''dept_id'' \<mapsto> Some (99::int), ''user_id'' \<mapsto> Some 77]"
  have a: "admin ?a" and n: "admin ?n" by (simp_all add: sample_user_def)
  have ra: "role ?a \<noteq> []" and rn: "role ?n = []" by (simp_all add: sample_user_def)
  note ta = admin_sees_every_row [OF a, where self = SysUser_scope]
  note tn = admin_sees_every_row [OF n, where self = SysUser_scope]
  from ta have "role ?a \<noteq> [] \<longrightarrow>
      GetDataScope_call SysUser_scope ?a = ''or_(1 == 1)''
      \<and> param_sql_list SysUser_scope ?a = [''1 == 1'']"
    by (elim conjE)
  then have "GetDataScope_call SysUser_scope ?a = ''or_(1 == 1)''
      \<and> param_sql_list SysUser_scope ?a = [''1 == 1'']"
    using ra by (rule mp)
  then have ca: "GetDataScope_call SysUser_scope ?a = ''or_(1 == 1)''" by (rule conjunct1)
  from tn have "role ?n = [] \<longrightarrow>
      GetDataScope_call SysUser_scope ?n = ''or_()'' \<and> param_sql_list SysUser_scope ?n = []"
    by (elim conjE)
  then have "GetDataScope_call SysUser_scope ?n = ''or_()'' \<and> param_sql_list SysUser_scope ?n = []"
    using rn by (rule mp)
  then have cn: "GetDataScope_call SysUser_scope ?n = ''or_()''" by (rule conjunct1)
  from ta have "\<forall>db row. where_admits (clause_reading SysUser_scope [Py_true] db)
      (param_sql_list SysUser_scope ?a) row"
    by (elim conjE)
  then have wa: "where_admits (clause_reading SysUser_scope [Py_true] sample_db)
      (param_sql_list SysUser_scope ?a) ?row"
    by (elim allE)
  from tn have "\<forall>db row. where_admits (clause_reading SysUser_scope [Py_true] db)
      (param_sql_list SysUser_scope ?n) row"
    by (elim conjE)
  then have wn: "where_admits (clause_reading SysUser_scope [Py_true] sample_db)
      (param_sql_list SysUser_scope ?n) ?row"
    by (elim allE)
  from a n ca cn wa wn show ?thesis by (intro conjI)
qed

subsection \<open>The ALL scope\<close>

text \<open>
  C2. A user who holds at least one role of scope ALL gets the always-true predicate
  \<^verbatim>\<open>or_(1 == 1)\<close>: the list of clauses is the single clause \<^verbatim>\<open>1 == 1\<close>,
  whatever the other roles are and whatever the loop had collected before it reached
  the ALL role.
\<close>

theorem all_scope_returns_true_predicate:
  assumes "\<exists>r \<in> set (role cu). data_scope r = DATA_SCOPE_ALL"
  shows "GetDataScope_call self cu = ''or_(1 == 1)''
       \<and> param_sql_list self cu = [''1 == 1'']
       \<and> (\<forall>acc. scope_loop self cu (custom_data_scope_role_id_list cu) (role cu) acc = [''1 == 1''])"
proof -
  from assms have sc: "short_circuits cu (role cu)"
    by (auto simp: short_circuits_def list_ex_iff)
  show ?thesis
    using call_break [OF sc] param_sql_list_break [OF sc] scope_loop_break [OF sc]
    by (simp add: sql_true_def)
qed

theorem all_scope_returns_true_predicate_witness:
  "(\<exists>r \<in> set [\<lparr>role_id = 3, data_scope = ''3''\<rparr>, \<lparr>role_id = 2, data_scope = ''2''\<rparr>,
               \<lparr>role_id = 1, data_scope = ''1''\<rparr>, \<lparr>role_id = 5, data_scope = ''5''\<rparr>].
      data_scope r = DATA_SCOPE_ALL)
   \<and> GetDataScope_call SysUser_scope
       (sample_user False
          [\<lparr>role_id = 3, data_scope = ''3''\<rparr>, \<lparr>role_id = 2, data_scope = ''2''\<rparr>,
           \<lparr>role_id = 1, data_scope = ''1''\<rparr>, \<lparr>role_id = 5, data_scope = ''5''\<rparr>])
     = ''or_(1 == 1)''"
proof -
  let ?rs = "[\<lparr>role_id = 3, data_scope = ''3''\<rparr>, \<lparr>role_id = 2, data_scope = ''2''\<rparr>,
              \<lparr>role_id = 1, data_scope = ''1''\<rparr>, \<lparr>role_id = 5, data_scope = ''5''\<rparr>]"
  have h: "\<exists>r \<in> set (role (sample_user False ?rs)). data_scope r = DATA_SCOPE_ALL"
    by (simp add: DATA_SCOPE_ALL_def sample_user_def)
  from all_scope_returns_true_predicate [OF h, of SysUser_scope] h
  show ?thesis by (simp add: sample_user_def)
qed

subsection \<open>Several roles\<close>

text \<open>
  C3. For a user who is no administrator and whose roles (at least one) are all
  narrower than ALL, the returned text is \<^verbatim>\<open>or_(\<close>, the first clause, every
  further clause after a comma and a space, and \<^verbatim>\<open>)\<close>; its operands are
  exactly the clause texts the roles produce. So under any reading of the single
  clauses a row passes exactly when the clause of some held role holds for it. In
  particular, with the clauses read through their structure, a row passes exactly when
  the structured clause of some held role evaluates to true: with a DEPT role and a
  SELF role, a row of the user's department owned by somebody else passes, and so
  does a row of another department owned by the user.
\<close>

theorem roles_combined_with_or:
  assumes "\<not> admin cu" and "\<forall>r \<in> set (role cu). data_scope r \<noteq> DATA_SCOPE_ALL"
    and "role cu \<noteq> []"
  shows "GetDataScope_call self cu = ''or_('' @ py_join '', '' (param_sql_list self cu) @ '')''
       \<and> param_sql_list self cu \<noteq> []
       \<and> GetDataScope_call self cu
           = ''or_('' @ hd (param_sql_list self cu)
               @ concat (map (\<lambda>c. '', '' @ c) (tl (param_sql_list self cu))) @ '')''
       \<and> param_sql_list self cu
           = dict_fromkeys (map (role_sql self cu (custom_data_scope_role_id_list cu)) (role cu))
       \<and> set (param_sql_list self cu)
           = role_sql self cu (custom_data_scope_role_id_list cu) ` set (role cu)
       \<and> (\<forall>empty_or holds row.
            or_admits empty_or holds (param_sql_list self cu) row
              \<longleftrightarrow> (\<exists>r \<in> set (role cu).
                     holds (role_sql self cu (custom_data_scope_role_id_list cu) r) row))
       \<and> (\<forall>empty_or db row.
            or_admits empty_or
              (clause_reading self
                 (map (role_clause self cu (custom_data_scope_role_id_list cu)) (role cu)) db)
              (param_sql_list self cu) row
              \<longleftrightarrow> (\<exists>r \<in> set (role cu).
                     py_holds db row (role_clause self cu (custom_data_scope_role_id_list cu) r)
                       = Inr True))"
proof -
  let ?ids = "custom_data_scope_role_id_list cu"
  let ?es = "map (role_clause self cu ?ids) (role cu)"
  from assms(1,2) have nb: "\<not> short_circuits cu (role cu)"
    by (simp add: no_break_iff)
  have s: "set (param_sql_list self cu) = role_sql self cu ?ids ` set (role cu)"
    by (simp add: param_sql_list_def collected_no_break [OF nb])
  have ne: "param_sql_list self cu \<noteq> []"
    using assms(3) by (simp add: param_sql_list_def collected_no_break [OF nb])
  have gen: "or_admits empty_or holds (param_sql_list self cu) row
        \<longleftrightarrow> (\<exists>r \<in> set (role cu). holds (role_sql self cu ?ids r) row)"
    for empty_or and holds :: "string \<Rightarrow> 'a \<Rightarrow> bool" and row
    using ne by (auto simp: or_admits_def list_ex_iff s)
  have rd: "or_admits empty_or (clause_reading self ?es db) (param_sql_list self cu) row
        \<longleftrightarrow> (\<exists>r \<in> set (role cu). py_holds db row (role_clause self cu ?ids r) = Inr True)"
    for empty_or db row
  proof -
    have 1: "or_admits empty_or (clause_reading self ?es db) (param_sql_list self cu) row
        \<longleftrightarrow> (\<exists>c \<in> set (param_sql_list self cu). clause_reading self ?es db c row)"
      using ne by (simp add: or_admits_def list_ex_iff)
    have 2: "(\<exists>c \<in> set (param_sql_list self cu). clause_reading self ?es db c row)
        \<longleftrightarrow> (\<exists>r \<in> set (role cu). clause_reading self ?es db (role_sql self cu ?ids r) row)"
      unfolding s by blast
    have 3: "clause_reading self ?es db c row
        \<longleftrightarrow> (\<exists>r' \<in> set (role cu). role_sql self cu ?ids r' = c
               \<and> py_holds db row (role_clause self cu ?ids r') = Inr True)" for c
      by (simp add: clause_reading_def list_ex_iff render_role_clause)
    have "(\<exists>r \<in> set (role cu). clause_reading self ?es db (role_sql self cu ?ids r) row)
        \<longleftrightarrow> (\<exists>r \<in> set (role cu). py_holds db row (role_clause self cu ?ids r) = Inr True)"
      unfolding 3 by blast
    with 1 2 show ?thesis by simp
  qed
  have c1: "GetDataScope_call self cu = ''or_('' @ py_join '', '' (param_sql_list self cu) @ '')''"
    by (simp add: GetDataScope_call_def)
  have c2: "GetDataScope_call self cu
           = ''or_('' @ hd (param_sql_list self cu)
               @ concat (map (\<lambda>c. '', '' @ c) (tl (param_sql_list self cu))) @ '')''"
    using ne by (rule call_text_nonempty)
  have p: "param_sql_list self cu = dict_fromkeys (map (role_sql self cu ?ids) (role cu))"
    by (simp add: param_sql_list_def collected_no_break [OF nb])
  from c1 ne c2 p s show ?thesis
    by (intro conjI allI) (assumption | rule gen | rule rd)+
qed

theorem roles_combined_with_or_witness:
  "\<not> admin (sample_user False [\<lparr>role_id = 10, data_scope = ''3''\<rparr>, \<lparr>role_id = 11, data_scope = ''5''\<rparr>])
   \<and> GetDataScope_call SysUser_scope
       (sample_user False [\<lparr>role_id = 10, data_scope = ''3''\<rparr>, \<lparr>role_id = 11, data_scope = ''5''\<rparr>])
     = ''or_(SysUser.dept_id == 5 if hasattr(SysUser, 'dept_id') else 1 == 0, SysUser.user_id == 2 if hasattr(SysUser, 'user_id') else 1 == 0)''
   \<and> or_admits False
       (clause_reading SysUser_scope
          [If_hasattr (Col_eq ''dept_id'' (Some 5)), If_hasattr (Col_eq ''user_id'' (Some 2))]
          sample_db)
       (param_sql_list SysUser_scope
          (sample_user False [\<lparr>role_id = 10, data_scope = ''3''\<rparr>, \<lparr>role_id = 11, data_scope = ''5''\<rparr>]))
       [''dept_id'' \<mapsto> Some 5, ''user_id'' \<mapsto> Some 77]
   \<and> or_admits False
       (clause_reading SysUser_scope
          [If_hasattr (Col_eq ''dept_id'' (Some 5)), If_hasattr (Col_eq ''user_id'' (Some 2))]
          sample_db)
       (param_sql_list SysUser_scope
          (sample_user False [\<lparr>role_id = 10, data_scope = ''3''\<rparr>, \<lparr>role_id = 11, data_scope = ''5''\<rparr>]))
       [''dept_id'' \<mapsto> Some 6, ''user_id'' \<mapsto> Some 2]
   \<and> \<not> or_admits False
       (clause_reading SysUser_scope
          [If_hasattr (Col_eq ''dept_id'' (Some 5)), If_hasattr (Col_eq ''user_id'' (Some 2))]
          sample_db)
       (param_sql_list SysUser_scope
          (sample_user False [\<lparr>role_id = 10, data_scope = ''3''\<rparr>, \<lparr>role_id = 11, data_scope = ''5''\<rparr>]))
       [''dept_id'' \<mapsto> Some 6, ''user_id'' \<mapsto> Some 77]"
proof -
  let ?cu = "sample_user False [\<lparr>role_id = 10, data_scope = ''3''\<rparr>, \<lparr>role_id = 11, data_scope = ''5''\<rparr>]"
  have a: "\<not> admin ?cu" by (simp add: sample_user_def)
  have b: "\<forall>r \<in> set (role ?cu). data_scope r \<noteq> DATA_SCOPE_ALL"
    by (simp add: sample_user_def DATA_SCOPE_defs)
  have c: "role ?cu \<noteq> []" by (simp add: sample_user_def)
  have es: "map (role_clause SysUser_scope ?cu (custom_data_scope_role_id_list ?cu)) (role ?cu)
        = [If_hasattr (Col_eq ''dept_id'' (Some 5)), If_hasattr (Col_eq ''user_id'' (Some 2))]"
    by (simp add: sample_user_def role_clause_def DATA_SCOPE_defs SysUser_scope_def)
  note t = roles_combined_with_or [OF a b c, of SysUser_scope]
  from t have "\<forall>empty_or db row.
            or_admits empty_or
              (clause_reading SysUser_scope
                 (map (role_clause SysUser_scope ?cu (custom_data_scope_role_id_list ?cu)) (role ?cu)) db)
              (param_sql_list SysUser_scope ?cu) row
              \<longleftrightarrow> (\<exists>r \<in> set (role ?cu).
                     py_holds db row (role_clause SysUser_scope ?cu (custom_data_scope_role_id_list ?cu) r)
                       = Inr True)"
    by (elim conjE)
  then have rd: "or_admits False
          (clause_reading SysUser_scope
             [If_hasattr (Col_eq ''dept_id'' (Some 5)), If_hasattr (Col_eq ''user_id'' (Some 2))]
             sample_db)
          (param_sql_list SysUser_scope ?cu) row
        \<longleftrightarrow> (\<exists>r \<in> set (role ?cu).
               py_holds sample_db row
                 (role_clause SysUser_scope ?cu (custom_data_scope_role_id_list ?cu) r) = Inr True)"
    for row
    unfolding es by (elim allE)
  have ev: "(\<exists>r \<in> set (role ?cu).
               py_holds sample_db row
                 (role_clause SysUser_scope ?cu (custom_data_scope_role_id_list ?cu) r) = Inr True)
        \<longleftrightarrow> row ''dept_id'' = Some (Some 5) \<or> row ''user_id'' = Some (Some 2)" for row
    by (simp add: sample_user_def role_clause_def DATA_SCOPE_defs SysUser_scope_def py_holds_col_eq
        del: py_holds.simps)
  have ops: "param_sql_list SysUser_scope ?cu
      = [''SysUser.dept_id == 5 if hasattr(SysUser, 'dept_id') else 1 == 0'',
         ''SysUser.user_id == 2 if hasattr(SysUser, 'user_id') else 1 == 0'']"
    by (simp add: eval_defs sample_user_def)
  from t have "GetDataScope_call SysUser_scope ?cu
      = ''or_('' @ hd (param_sql_list SysUser_scope ?cu)
          @ concat (map (\<lambda>c. '', '' @ c) (tl (param_sql_list SysUser_scope ?cu))) @ '')''"
    by (elim conjE)
  then have call: "GetDataScope_call SysUser_scope ?cu
     = ''or_(SysUser.dept_id == 5 if hasattr(SysUser, 'dept_id') else 1 == 0, SysUser.user_id == 2 if hasattr(SysUser, 'user_id') else 1 == 0)''"
    by (simp add: ops)
  from a call show ?thesis unfolding rd ev by simp
qed

subsection \<open>Several CUSTOM roles\<close>

text \<open>
  C4. For a user who is no administrator, holds no role of scope ALL and holds more
  than one CUSTOM role, every CUSTOM role appends the same clause text, the IN clause
  over the ids of all CUSTOM roles, and after the deduplication that text is in the
  result exactly once. Read through its structure, the clause holds for a row exactly
  when the row's department is granted to one of the CUSTOM roles: the union of the
  grants. When all roles are CUSTOM the result is that single clause.
\<close>

theorem custom_roles_share_one_clause:
  assumes "\<not> admin cu" and "\<forall>r \<in> set (role cu). data_scope r \<noteq> DATA_SCOPE_ALL"
    and "length (custom_data_scope_role_id_list cu) > 1"
  shows "count_list (param_sql_list self cu)
           (sql_custom_many self (custom_data_scope_role_id_list cu)) = 1
       \<and> (\<forall>r \<in> set (role cu). data_scope r = DATA_SCOPE_CUSTOM \<longrightarrow>
             role_sql self cu (custom_data_scope_role_id_list cu) r
               = sql_custom_many self (custom_data_scope_role_id_list cu))
       \<and> sql_custom_many self (custom_data_scope_role_id_list cu)
           = render (query_alias self)
               (If_hasattr (Col_in_role_depts_many (dept_alias self) (custom_data_scope_role_id_list cu)))
       \<and> py_holds db row
            (If_hasattr (Col_in_role_depts_many (dept_alias self) (custom_data_scope_role_id_list cu)))
           = Inr (\<exists>d. row (dept_alias self) = Some (Some d)
                    \<and> (\<exists>r \<in> set (role cu). data_scope r = DATA_SCOPE_CUSTOM
                          \<and> (role_id r, d) \<in> set (sys_role_dept db)))
       \<and> ((\<forall>r \<in> set (role cu). data_scope r = DATA_SCOPE_CUSTOM) \<longrightarrow>
             param_sql_list self cu = [sql_custom_many self (custom_data_scope_role_id_list cu)])"
proof -
  let ?ids = "custom_data_scope_role_id_list cu"
  from assms(1,2) have nb: "\<not> short_circuits cu (role cu)"
    by (simp add: no_break_iff)
  have same: "role_sql self cu ?ids r = sql_custom_many self ?ids"
    if "data_scope r = DATA_SCOPE_CUSTOM" for r
    using that assms(3) by (simp add: role_sql_def)
  from assms(3) have "?ids \<noteq> []" by auto
  then obtain r0 where r0: "r0 \<in> set (role cu)" "data_scope r0 = DATA_SCOPE_CUSTOM"
    by (auto simp: custom_data_scope_role_id_list_def filter_empty_conv)
  have mem: "sql_custom_many self ?ids \<in> set (param_sql_list self cu)"
    using r0 same [OF r0(2)] by (force simp: param_sql_list_def collected_no_break [OF nb])
  have cnt: "count_list (param_sql_list self cu) (sql_custom_many self ?ids) = 1"
    using mem by (simp add: count_list_distinct param_sql_list_def)
  have rd: "sql_custom_many self ?ids
           = render (query_alias self) (If_hasattr (Col_in_role_depts_many (dept_alias self) ?ids))"
    by (simp add: sql_custom_many_def)
  have ids: "(\<exists>rid \<in> set ?ids. (rid, d) \<in> set (sys_role_dept db))
        \<longleftrightarrow> (\<exists>r \<in> set (role cu). data_scope r = DATA_SCOPE_CUSTOM
                          \<and> (role_id r, d) \<in> set (sys_role_dept db))" for d
    by (auto simp: custom_data_scope_role_id_list_def)
  have sem: "py_holds db row (If_hasattr (Col_in_role_depts_many (dept_alias self) ?ids))
           = Inr (\<exists>d. row (dept_alias self) = Some (Some d)
                    \<and> (\<exists>r \<in> set (role cu). data_scope r = DATA_SCOPE_CUSTOM
                          \<and> (role_id r, d) \<in> set (sys_role_dept db)))"
    unfolding py_holds_role_depts_many ids ..
  have only: "param_sql_list self cu = [sql_custom_many self ?ids]"
    if all: "\<forall>r \<in> set (role cu). data_scope r = DATA_SCOPE_CUSTOM"
  proof -
    have "set (dict_fromkeys (collected_sql_list self cu)) = {sql_custom_many self ?ids}"
      using all same r0(1) by (auto simp: param_sql_list_def collected_no_break [OF nb])
    with dict_fromkeys_distinct [of "collected_sql_list self cu"] show ?thesis
      unfolding param_sql_list_def
      by (rule distinct_set_single)
  qed
  from cnt same rd sem only show ?thesis by blast
qed

theorem custom_roles_share_one_clause_witness:
  "\<not> admin (sample_user False [\<lparr>role_id = 20, data_scope = ''2''\<rparr>, \<lparr>role_id = 21, data_scope = ''2''\<rparr>])
   \<and> custom_data_scope_role_id_list
       (sample_user False [\<lparr>role_id = 20, data_scope = ''2''\<rparr>, \<lparr>role_id = 21, data_scope = ''2''\<rparr>])
     = [20, 21]
   \<and> GetDataScope_call SysUser_scope
       (sample_user False [\<lparr>role_id = 20, data_scope = ''2''\<rparr>, \<lparr>role_id = 21, data_scope = ''2''\<rparr>])
     = ''or_(SysUser.dept_id.in_(select(SysRoleDept.dept_id).where(SysRoleDept.role_id.in_([20, 21]))) if hasattr(SysUser, 'dept_id') else 1 == 0)''
   \<and> py_holds sample_db [''dept_id'' \<mapsto> Some 3]
        (If_hasattr (Col_in_role_depts_many ''dept_id'' [20, 21])) = Inr True
   \<and> py_holds sample_db [''dept_id'' \<mapsto> Some 7]
        (If_hasattr (Col_in_role_depts_many ''dept_id'' [20, 21])) = Inr True
   \<and> py_holds sample_db [''dept_id'' \<mapsto> Some 9]
        (If_hasattr (Col_in_role_depts_many ''dept_id'' [20, 21])) = Inr False"
proof -
  let ?cu = "sample_user False [\<lparr>role_id = 20, data_scope = ''2''\<rparr>, \<lparr>role_id = 21, data_scope = ''2''\<rparr>]"
  have a: "\<not> admin ?cu" by (simp add: sample_user_def)
  have b: "\<forall>r \<in> set (role ?cu). data_scope r \<noteq> DATA_SCOPE_ALL"
    by (simp add: sample_user_def DATA_SCOPE_defs)
  have i: "custom_data_scope_role_id_list ?cu = [20, 21]"
    by (simp add: sample_user_def custom_data_scope_role_id_list_def DATA_SCOPE_defs)
  then have c: "length (custom_data_scope_role_id_list ?cu) > 1" by simp
  have all: "\<forall>r \<in> set (role ?cu). data_scope r = DATA_SCOPE_CUSTOM"
    by (simp add: sample_user_def DATA_SCOPE_defs)
  note t = custom_roles_share_one_clause
    [OF a b c, where self = SysUser_scope and db = sample_db and row = "Map.empty"]
  from t have "(\<forall>r \<in> set (role ?cu). data_scope r = DATA_SCOPE_CUSTOM) \<longrightarrow>
      param_sql_list SysUser_scope ?cu
        = [sql_custom_many SysUser_scope (custom_data_scope_role_id_list ?cu)]"
    by (elim conjE)
  then have "param_sql_list SysUser_scope ?cu
        = [sql_custom_many SysUser_scope (custom_data_scope_role_id_list ?cu)]"
    using all by (rule mp)
  then have "param_sql_list SysUser_scope ?cu = [sql_custom_many SysUser_scope [20, 21]]"
    unfolding i .
  then have call: "GetDataScope_call SysUser_scope ?cu
     = ''or_(SysUser.dept_id.in_(select(SysRoleDept.dept_id).where(SysRoleDept.role_id.in_([20, 21]))) if hasattr(SysUser, 'dept_id') else 1 == 0)''"
    by (simp add: GetDataScope_call_def sql_custom_many_def py_repr_list_def py_str_int_def
        str_nat.simps digit_char_def SysUser_scope_def)
  have rows: "py_holds sample_db [''dept_id'' \<mapsto> Some 3]
        (If_hasattr (Col_in_role_depts_many ''dept_id'' [20, 21])) = Inr True
   \<and> py_holds sample_db [''dept_id'' \<mapsto> Some 7]
        (If_hasattr (Col_in_role_depts_many ''dept_id'' [20, 21])) = Inr True
   \<and> py_holds sample_db [''dept_id'' \<mapsto> Some 9]
        (If_hasattr (Col_in_role_depts_many ''dept_id'' [20, 21])) = Inr False"
    by (simp add: getattr_def sql_in_def select_role_depts_def sample_db_def)
  from a i call rows show ?thesis by simp
qed

subsection \<open>No roles\<close>


subsection \<open>Unrecognised scopes\<close>

text \<open>
  C6. A role whose scope is none of the five constants contributes the clause
  \<^verbatim>\<open>1 == 0\<close>: the \<^verbatim>\<open>elif\<close> chain falls through to its last branch,
  which appends the always-false clause and raises nothing. For a user who is no
  administrator the loop appends exactly that clause at such a role and goes on, and
  the clause is among the operands of the result when the loop is not cut short.
\<close>

theorem unknown_scope_fails_closed:
  assumes "data_scope r \<noteq> DATA_SCOPE_ALL" and "data_scope r \<noteq> DATA_SCOPE_CUSTOM"
    and "data_scope r \<noteq> DATA_SCOPE_DEPT" and "data_scope r \<noteq> DATA_SCOPE_DEPT_AND_CHILD"
    and "data_scope r \<noteq> DATA_SCOPE_SELF" and "\<not> admin cu"
  shows "role_sql self cu custom r = ''1 == 0''
       \<and> role_clause self cu custom r = Py_false
       \<and> py_holds db row (role_clause self cu custom r) = Inr False
       \<and> scope_loop self cu custom (r # rs) acc = scope_loop self cu custom rs (acc @ [''1 == 0''])
       \<and> (\<not> short_circuits cu (role cu) \<and> r \<in> set (role cu)
            \<longrightarrow> ''1 == 0'' \<in> set (param_sql_list self cu))"
proof -
  have t: "role_sql self cu custom' r = ''1 == 0''" for custom'
    using assms by (simp add: role_sql_def sql_false_def)
  have c: "role_clause self cu custom r = Py_false"
    using assms by (simp add: role_clause_def)
  have l: "scope_loop self cu custom (r # rs) acc = scope_loop self cu custom rs (acc @ [''1 == 0''])"
    using assms t by simp
  have m: "''1 == 0'' \<in> set (param_sql_list self cu)"
    if "\<not> short_circuits cu (role cu)" "r \<in> set (role cu)"
    using that t [of "custom_data_scope_role_id_list cu"]
    by (force simp: param_sql_list_def collected_no_break)
  from t c l m show ?thesis by simp
qed

theorem unknown_scope_fails_closed_witness:
  "\<not> admin (sample_user False [\<lparr>role_id = 30, data_scope = ''9''\<rparr>])
   \<and> role_sql SysUser_scope (sample_user False [\<lparr>role_id = 30, data_scope = ''9''\<rparr>]) []
        \<lparr>role_id = 30, data_scope = ''9''\<rparr> = ''1 == 0''
   \<and> GetDataScope_call SysUser_scope (sample_user False [\<lparr>role_id = 30, data_scope = ''9''\<rparr>])
     = ''or_(1 == 0)''"
proof -
  let ?r = "\<lparr>role_id = 30, data_scope = ''9''\<rparr>"
  let ?cu = "sample_user False [?r]"
  have a: "\<not> admin ?cu" by (simp add: sample_user_def)
  have s: "data_scope ?r \<noteq> DATA_SCOPE_ALL" "data_scope ?r \<noteq> DATA_SCOPE_CUSTOM"
    "data_scope ?r \<noteq> DATA_SCOPE_DEPT" "data_scope ?r \<noteq> DATA_SCOPE_DEPT_AND_CHILD"
    "data_scope ?r \<noteq> DATA_SCOPE_SELF"
    by (simp_all add: DATA_SCOPE_defs)
  from unknown_scope_fails_closed
    [OF s a, where self = SysUser_scope and custom = "[]" and db = sample_db
       and row = "Map.empty" and rs = "[]" and acc = "[]"]
  have t: "role_sql SysUser_scope ?cu [] ?r = ''1 == 0''" by (elim conjE)
  have "GetDataScope_call SysUser_scope ?cu = ''or_(1 == 0)''"
    by (simp add: eval_defs sample_user_def)
  with a t show ?thesis by simp
qed

subsection \<open>Entities without the field\<close>

text \<open>
  C7. Every clause that reads a field is guarded by \<^verbatim>\<open>hasattr\<close>. When the
  entity has no department attribute, the clause of a CUSTOM, DEPT or DEPT_AND_CHILD
  role evaluates to false; when it has no owner attribute, the clause of a SELF role
  evaluates to false. Neither raises, although the unguarded column expression would
  raise AttributeError on the same entity.
\<close>

theorem missing_field_fails_closed:
  "((data_scope r = DATA_SCOPE_CUSTOM \<or> data_scope r = DATA_SCOPE_DEPT
       \<or> data_scope r = DATA_SCOPE_DEPT_AND_CHILD) \<and> row (dept_alias self) = None
     \<longrightarrow> py_holds db row (role_clause self cu custom r) = Inr False)
   \<and> (data_scope r = DATA_SCOPE_SELF \<and> row (user_alias self) = None
     \<longrightarrow> py_holds db row (role_clause self cu custom r) = Inr False)
   \<and> render (query_alias self) (role_clause self cu custom r) = role_sql self cu custom r
   \<and> (\<forall>e. row (column_of e) = None
        \<longrightarrow> py_holds db row (If_hasattr e) = Inr False
          \<and> sql_holds db row e = Inl (AttributeError (column_of e)))"
proof -
  have a: "(data_scope r = DATA_SCOPE_CUSTOM \<or> data_scope r = DATA_SCOPE_DEPT
       \<or> data_scope r = DATA_SCOPE_DEPT_AND_CHILD) \<and> row (dept_alias self) = None
     \<longrightarrow> py_holds db row (role_clause self cu custom r) = Inr False"
    by (auto simp: role_clause_def DATA_SCOPE_defs)
  have b: "data_scope r = DATA_SCOPE_SELF \<and> row (user_alias self) = None
     \<longrightarrow> py_holds db row (role_clause self cu custom r) = Inr False"
    by (simp add: role_clause_def DATA_SCOPE_defs)
  have c: "render (query_alias self) (role_clause self cu custom r) = role_sql self cu custom r"
    by (rule render_role_clause)
  have d: "\<forall>e. row (column_of e) = None
        \<longrightarrow> py_holds db row (If_hasattr e) = Inr False
          \<and> sql_holds db row e = Inl (AttributeError (column_of e))"
    by (simp add: sql_holds_missing)
  from a b c d show ?thesis by (intro conjI)
qed

theorem missing_field_fails_closed_witness:
  "[''role_id'' \<mapsto> Some (4::int)] (dept_alias SysUser_scope) = None
   \<and> py_holds sample_db [''role_id'' \<mapsto> Some 4]
       (role_clause SysUser_scope (sample_user False []) [] \<lparr>role_id = 10, data_scope = ''3''\<rparr>)
     = Inr False
   \<and> py_holds sample_db [''role_id'' \<mapsto> Some 4]
       (role_clause SysUser_scope (sample_user False []) [] \<lparr>role_id = 11, data_scope = ''5''\<rparr>)
     = Inr False
   \<and> sql_holds sample_db [''role_id'' \<mapsto> Some 4] (Col_eq ''dept_id'' (Some 5))
     = Inl (AttributeError ''dept_id'')"
proof -
  let ?row = "[''role_id'' \<mapsto> Some (4::int)]"
  have d: "?row (dept_alias SysUser_scope) = None" and u: "?row (user_alias SysUser_scope) = None"
    by (simp_all add: SysUser_scope_def)
  have s3: "data_scope \<lparr>role_id = 10, data_scope = ''3''\<rparr> = DATA_SCOPE_DEPT"
    and s5: "data_scope \<lparr>role_id = 11, data_scope = ''5''\<rparr> = DATA_SCOPE_SELF"
    by (simp_all add: DATA_SCOPE_defs)
  note t3 = missing_field_fails_closed
    [where r = "\<lparr>role_id = 10, data_scope = ''3''\<rparr>" and row = ?row and self = SysUser_scope
       and db = sample_db and cu = "sample_user False []" and custom = "[]"]
  note t5 = missing_field_fails_closed
    [where r = "\<lparr>role_id = 11, data_scope = ''5''\<rparr>" and row = ?row and self = SysUser_scope
       and db = sample_db and cu = "sample_user False []" and custom = "[]"]
  from t3 have "(data_scope \<lparr>role_id = 10, data_scope = ''3''\<rparr> = DATA_SCOPE_CUSTOM
       \<or> data_scope \<lparr>role_id = 10, data_scope = ''3''\<rparr> = DATA_SCOPE_DEPT
       \<or> data_scope \<lparr>role_id = 10, data_scope = ''3''\<rparr> = DATA_SCOPE_DEPT_AND_CHILD)
      \<and> ?row (dept_alias SysUser_scope) = None
     \<longrightarrow> py_holds sample_db ?row
       (role_clause SysUser_scope (sample_user False []) [] \<lparr>role_id = 10, data_scope = ''3''\<rparr>)
     = Inr False"
    by (elim conjE)
  then have x: "py_holds sample_db ?row
       (role_clause SysUser_scope (sample_user False []) [] \<lparr>role_id = 10, data_scope = ''3''\<rparr>)
     = Inr False"
    using s3 d by simp
  from t5 have "data_scope \<lparr>role_id = 11, data_scope = ''5''\<rparr> = DATA_SCOPE_SELF
      \<and> ?row (user_alias SysUser_scope) = None
     \<longrightarrow> py_holds sample_db ?row
       (role_clause SysUser_scope (sample_user False []) [] \<lparr>role_id = 11, data_scope = ''5''\<rparr>)
     = Inr False"
    by (elim conjE)
  then have y: "py_holds sample_db ?row
       (role_clause SysUser_scope (sample_user False []) [] \<lparr>role_id = 11, data_scope = ''5''\<rparr>)
     = Inr False"
    using s5 u by simp
  have z: "sql_holds sample_db ?row (Col_eq ''dept_id'' (Some 5)) = Inl (AttributeError ''dept_id'')"
    by (simp add: getattr_def)
  from d x y z show ?thesis by (intro conjI)
qed

subsection \<open>The department and its descendants\<close>

text \<open>
  C8. The claim is that the clause of a DEPT_AND_CHILD role admits exactly the rows
  whose department equals the user's own department or belongs to a department whose
  ancestors contain it. Line 110 does not compare the row with the user's department:
  the clause is an IN over the rows of \<^verbatim>\<open>sys_dept\<close>, and
  \<^verbatim>\<open>sys_user.dept_id\<close> is a plain nullable column without a foreign key. For a
  user of department 777, which is no row of \<^verbatim>\<open>sys_dept\<close>, a row of
  department 777 equals the user's department and is not admitted.
\<close>

theorem dept_and_child_missing_department:
  "dept_id \<lparr>user_id = 2, dept_id = Some 777, admin = False,
             role = [\<lparr>role_id = 40, data_scope = ''4''\<rparr>]\<rparr> = Some 777
   \<and> [''dept_id'' \<mapsto> Some (777::int)] ''dept_id'' = Some (Some 777)
   \<and> GetDataScope_call SysUser_scope
       \<lparr>user_id = 2, dept_id = Some 777, admin = False, role = [\<lparr>role_id = 40, data_scope = ''4''\<rparr>]\<rparr>
     = ''or_(SysUser.dept_id.in_(select(SysDept.dept_id).where(or_(SysDept.dept_id == 777, func.find_in_set(777, SysDept.ancestors)))) if hasattr(SysUser, 'dept_id') else 1 == 0)''
   \<and> render (query_alias SysUser_scope)
       (role_clause SysUser_scope
          \<lparr>user_id = 2, dept_id = Some 777, admin = False, role = [\<lparr>role_id = 40, data_scope = ''4''\<rparr>]\<rparr>
          [] \<lparr>role_id = 40, data_scope = ''4''\<rparr>)
     = ''SysUser.dept_id.in_(select(SysDept.dept_id).where(or_(SysDept.dept_id == 777, func.find_in_set(777, SysDept.ancestors)))) if hasattr(SysUser, 'dept_id') else 1 == 0''
   \<and> py_holds sample_db [''dept_id'' \<mapsto> Some 777]
       (role_clause SysUser_scope
          \<lparr>user_id = 2, dept_id = Some 777, admin = False, role = [\<lparr>role_id = 40, data_scope = ''4''\<rparr>]\<rparr>
          [] \<lparr>role_id = 40, data_scope = ''4''\<rparr>)
     = Inr False"
proof -
  let ?r = "\<lparr>role_id = 40, data_scope = ''4''\<rparr>"
  let ?cu = "\<lparr>user_id = 2, dept_id = Some 777, admin = False, role = [?r]\<rparr>"
  have n: "py_str_int 777 = ''777''"
    by (simp add: py_str_int_def str_nat.simps digit_char_def)
  have call: "GetDataScope_call SysUser_scope ?cu
     = ''or_(SysUser.dept_id.in_(select(SysDept.dept_id).where(or_(SysDept.dept_id == 777, func.find_in_set(777, SysDept.ancestors)))) if hasattr(SysUser, 'dept_id') else 1 == 0)''"
    by (simp add: eval_defs)
  have c: "role_clause SysUser_scope ?cu [] ?r = If_hasattr (Col_in_dept_tree ''dept_id'' (Some 777))"
    by (simp add: role_clause_def DATA_SCOPE_defs SysUser_scope_def)
  have rd: "render (query_alias SysUser_scope) (role_clause SysUser_scope ?cu [] ?r)
     = ''SysUser.dept_id.in_(select(SysDept.dept_id).where(or_(SysDept.dept_id == 777, func.find_in_set(777, SysDept.ancestors)))) if hasattr(SysUser, 'dept_id') else 1 == 0''"
    unfolding c by (simp add: SysUser_scope_def py_str_opt_def n)
  have items: "split_commas ''0'' = [''0'']" "split_commas ''0,5'' = [''0'', ''5'']"
    "split_commas ''0,5,12'' = [''0'', ''5'', ''12'']" "split_commas ''0,7'' = [''0'', ''7'']"
    "split_commas ''0,55'' = [''0'', ''55'']"
    by simp_all
  have h: "py_holds sample_db [''dept_id'' \<mapsto> Some 777] (role_clause SysUser_scope ?cu [] ?r)
     = Inr False"
    unfolding c py_holds_dept_tree by (simp add: sample_db_def n items)
  from call rd h show ?thesis by simp
qed

text \<open>
  C8, as the code has it. The clause of a DEPT_AND_CHILD role is the IN clause over
  the departments of \<^verbatim>\<open>sys_dept\<close> that are the user's own or carry the user's
  department id among the items of their ancestors list (\<^verbatim>\<open>find_in_set\<close>: one
  membership test on the stored chain, no walk of the tree). It holds for a row exactly
  when the row's department is the id of such a department; a user without department
  admits no row through it. When the user's own department is a row of
  \<^verbatim>\<open>sys_dept\<close> this is: the row's department equals the user's, or belongs to a
  department whose ancestors contain the user's department id. When the ancestors text
  is the comma separated print of a chain of ids, "contains" is membership in that
  chain. For a user who is no administrator and holds no ALL role the clause is among
  the operands of the result.
\<close>

theorem dept_and_child_admits_descendants:
  assumes "data_scope r = DATA_SCOPE_DEPT_AND_CHILD"
  shows "role_sql self cu custom r = sql_dept_and_child self (dept_id cu)
       \<and> role_sql self cu custom r = render (query_alias self) (role_clause self cu custom r)
       \<and> py_holds db row (role_clause self cu custom r)
           = Inr (\<exists>k d anc. dept_id cu = Some k \<and> row (dept_alias self) = Some (Some d)
                    \<and> (d, anc) \<in> set (sys_dept db)
                    \<and> (d = k \<or> py_str_int k \<in> set (split_commas anc)))
       \<and> (\<forall>k. dept_id cu = Some k \<and> k \<in> fst ` set (sys_dept db) \<longrightarrow>
            py_holds db row (role_clause self cu custom r)
              = Inr (\<exists>d. row (dept_alias self) = Some (Some d)
                       \<and> (d = k \<or> (\<exists>anc. (d, anc) \<in> set (sys_dept db)
                                       \<and> py_str_int k \<in> set (split_commas anc)))))
       \<and> (\<forall>k chain. chain \<noteq> [] \<longrightarrow>
            (py_str_int k \<in> set (split_commas (py_join '','' (map py_str_int chain)))
               \<longleftrightarrow> k \<in> set chain))
       \<and> (\<not> admin cu \<and> (\<forall>r' \<in> set (role cu). data_scope r' \<noteq> DATA_SCOPE_ALL)
            \<and> r \<in> set (role cu) \<and> custom = custom_data_scope_role_id_list cu
            \<longrightarrow> sql_dept_and_child self (dept_id cu) \<in> set (param_sql_list self cu))"
proof -
  have c: "role_clause self cu custom r = If_hasattr (Col_in_dept_tree (dept_alias self) (dept_id cu))"
    using assms by (simp add: role_clause_def DATA_SCOPE_defs)
  have t: "role_sql self cu custom r = sql_dept_and_child self (dept_id cu)"
    using assms by (simp add: role_sql_def DATA_SCOPE_defs)
  have rd: "role_sql self cu custom r = render (query_alias self) (role_clause self cu custom r)"
    by (simp add: render_role_clause)
  have g: "py_holds db row (role_clause self cu custom r)
           = Inr (\<exists>k d anc. dept_id cu = Some k \<and> row (dept_alias self) = Some (Some d)
                    \<and> (d, anc) \<in> set (sys_dept db)
                    \<and> (d = k \<or> py_str_int k \<in> set (split_commas anc)))"
  proof (cases "dept_id cu")
    case None
    show ?thesis unfolding c None py_holds_dept_tree_None by simp
  next
    case (Some k)
    have "(\<exists>d. row (dept_alias self) = Some (Some d)
            \<and> (\<exists>anc. (d, anc) \<in> set (sys_dept db)
                  \<and> (d = k \<or> py_str_int k \<in> set (split_commas anc))))
        \<longleftrightarrow> (\<exists>k' d anc. Some k = Some k' \<and> row (dept_alias self) = Some (Some d)
                    \<and> (d, anc) \<in> set (sys_dept db)
                    \<and> (d = k' \<or> py_str_int k' \<in> set (split_commas anc)))"
      by auto
    then show ?thesis unfolding c Some py_holds_dept_tree by simp
  qed
  have h: "py_holds db row (role_clause self cu custom r)
           = Inr (\<exists>d. row (dept_alias self) = Some (Some d)
                    \<and> (d = k \<or> (\<exists>anc. (d, anc) \<in> set (sys_dept db)
                                    \<and> py_str_int k \<in> set (split_commas anc))))"
    if k: "dept_id cu = Some k" and "k \<in> fst ` set (sys_dept db)" for k
  proof -
    from that(2) obtain anc0 where a0: "(k, anc0) \<in> set (sys_dept db)" by auto
    have "(\<exists>d. row (dept_alias self) = Some (Some d)
            \<and> (\<exists>anc. (d, anc) \<in> set (sys_dept db)
                  \<and> (d = k \<or> py_str_int k \<in> set (split_commas anc))))
      \<longleftrightarrow> (\<exists>d. row (dept_alias self) = Some (Some d)
                    \<and> (d = k \<or> (\<exists>anc. (d, anc) \<in> set (sys_dept db)
                                    \<and> py_str_int k \<in> set (split_commas anc))))"
      using a0 by blast
    then show ?thesis unfolding c k py_holds_dept_tree by simp
  qed
  have h': "\<forall>k. dept_id cu = Some k \<and> k \<in> fst ` set (sys_dept db) \<longrightarrow>
            py_holds db row (role_clause self cu custom r)
              = Inr (\<exists>d. row (dept_alias self) = Some (Some d)
                       \<and> (d = k \<or> (\<exists>anc. (d, anc) \<in> set (sys_dept db)
                                       \<and> py_str_int k \<in> set (split_commas anc))))"
    using h by (intro allI impI) (elim conjE)
  have ch: "\<forall>k chain. chain \<noteq> [] \<longrightarrow>
            (py_str_int k \<in> set (split_commas (py_join '','' (map py_str_int chain)))
               \<longleftrightarrow> k \<in> set chain)"
    by (intro allI impI) (rule ancestors_items)
  have m: "\<not> admin cu \<and> (\<forall>r' \<in> set (role cu). data_scope r' \<noteq> DATA_SCOPE_ALL)
            \<and> r \<in> set (role cu) \<and> custom = custom_data_scope_role_id_list cu
            \<longrightarrow> sql_dept_and_child self (dept_id cu) \<in> set (param_sql_list self cu)"
  proof (intro impI, elim conjE)
    assume a: "\<not> admin cu" and b: "\<forall>r' \<in> set (role cu). data_scope r' \<noteq> DATA_SCOPE_ALL"
      and i: "r \<in> set (role cu)" and e: "custom = custom_data_scope_role_id_list cu"
    from a b have nb: "\<not> short_circuits cu (role cu)" by (simp add: no_break_iff)
    from i have "role_sql self cu custom r \<in> role_sql self cu custom ` set (role cu)"
      by (rule imageI)
    with nb e t show "sql_dept_and_child self (dept_id cu) \<in> set (param_sql_list self cu)"
      by (simp add: param_sql_list_def collected_no_break)
  qed
  from t rd g h' ch m show ?thesis by (intro conjI)
qed

theorem dept_and_child_admits_descendants_witness:
  "data_scope \<lparr>role_id = 40, data_scope = ''4''\<rparr> = DATA_SCOPE_DEPT_AND_CHILD
   \<and> GetDataScope_call SysUser_scope (sample_user False [\<lparr>role_id = 40, data_scope = ''4''\<rparr>])
     = ''or_(SysUser.dept_id.in_(select(SysDept.dept_id).where(or_(SysDept.dept_id == 5, func.find_in_set(5, SysDept.ancestors)))) if hasattr(SysUser, 'dept_id') else 1 == 0)''
   \<and> py_holds sample_db [''dept_id'' \<mapsto> Some 12]
       (role_clause SysUser_scope (sample_user False [\<lparr>role_id = 40, data_scope = ''4''\<rparr>]) []
          \<lparr>role_id = 40, data_scope = ''4''\<rparr>) = Inr True
   \<and> py_holds sample_db [''dept_id'' \<mapsto> Some 13]
       (role_clause SysUser_scope (sample_user False [\<lparr>role_id = 40, data_scope = ''4''\<rparr>]) []
          \<lparr>role_id = 40, data_scope = ''4''\<rparr>) = Inr True
   \<and> py_holds sample_db [''dept_id'' \<mapsto> Some 5]
       (role_clause SysUser_scope (sample_user False [\<lparr>role_id = 40, data_scope = ''4''\<rparr>]) []
          \<lparr>role_id = 40, data_scope = ''4''\<rparr>) = Inr True
   \<and> py_holds sample_db [''dept_id'' \<mapsto> Some 99]
       (role_clause SysUser_scope (sample_user False [\<lparr>role_id = 40, data_scope = ''4''\<rparr>]) []
          \<lparr>role_id = 40, data_scope = ''4''\<rparr>) = Inr False
   \<and> py_holds sample_db [''dept_id'' \<mapsto> Some 50]
       (role_clause SysUser_scope (sample_user False [\<lparr>role_id = 40, data_scope = ''4''\<rparr>]) []
          \<lparr>role_id = 40, data_scope = ''4''\<rparr>) = Inr False
   \<and> py_holds sample_db [''dept_id'' \<mapsto> None]
       (role_clause SysUser_scope (sample_user False [\<lparr>role_id = 40, data_scope = ''4''\<rparr>]) []
          \<lparr>role_id = 40, data_scope = ''4''\<rparr>) = Inr False"
proof -
  let ?r = "\<lparr>role_id = 40, data_scope = ''4''\<rparr>"
  let ?cu = "sample_user False [?r]"
  have s: "data_scope ?r = DATA_SCOPE_DEPT_AND_CHILD" by (simp add: DATA_SCOPE_defs)
  have k: "dept_id ?cu = Some 5" by (simp add: sample_user_def)
  have items: "split_commas ''0'' = [''0'']" "split_commas ''0,5'' = [''0'', ''5'']"
    "split_commas ''0,5,12'' = [''0'', ''5'', ''12'']" "split_commas ''0,7'' = [''0'', ''7'']"
    "split_commas ''0,55'' = [''0'', ''55'']"
    by simp_all
  have five: "py_str_int 5 = ''5''"
    by (simp add: py_str_int_def str_nat.simps digit_char_def)
  have sem: "py_holds sample_db row (role_clause SysUser_scope ?cu [] ?r)
      = Inr (\<exists>k d anc. dept_id ?cu = Some k \<and> row (dept_alias SysUser_scope) = Some (Some d)
               \<and> (d, anc) \<in> set (sys_dept sample_db)
               \<and> (d = k \<or> py_str_int k \<in> set (split_commas anc)))" for row
  proof -
    note t = dept_and_child_admits_descendants
      [OF s, where self = SysUser_scope and cu = ?cu and custom = "[]" and db = sample_db
         and row = row]
    from t show ?thesis by (elim conjE)
  qed
  have call: "GetDataScope_call SysUser_scope ?cu
     = ''or_(SysUser.dept_id.in_(select(SysDept.dept_id).where(or_(SysDept.dept_id == 5, func.find_in_set(5, SysDept.ancestors)))) if hasattr(SysUser, 'dept_id') else 1 == 0)''"
    by (simp add: eval_defs sample_user_def)
  have rows: "py_holds sample_db [''dept_id'' \<mapsto> Some 12] (role_clause SysUser_scope ?cu [] ?r) = Inr True
    \<and> py_holds sample_db [''dept_id'' \<mapsto> Some 13] (role_clause SysUser_scope ?cu [] ?r) = Inr True
    \<and> py_holds sample_db [''dept_id'' \<mapsto> Some 5] (role_clause SysUser_scope ?cu [] ?r) = Inr True
    \<and> py_holds sample_db [''dept_id'' \<mapsto> Some 99] (role_clause SysUser_scope ?cu [] ?r) = Inr False
    \<and> py_holds sample_db [''dept_id'' \<mapsto> Some 50] (role_clause SysUser_scope ?cu [] ?r) = Inr False
    \<and> py_holds sample_db [''dept_id'' \<mapsto> None] (role_clause SysUser_scope ?cu [] ?r) = Inr False"
    unfolding sem k
    by (simp add: five SysUser_scope_def sample_db_def items ex_disj_distrib)
  from s call rows show ?thesis by (intro conjI) (elim conjE, assumption)+
qed

subsection \<open>Duplicates\<close>

text \<open>
  C9. Line 122 drops repeated clause texts before they are joined: the operands of the
  result are pairwise different, they are the collected clauses as a set, each
  collected clause occurs exactly once, and under any reading of the clauses and of the
  empty OR the deduplicated list admits the same rows as the list with duplicates. Two
  DEPT roles of one user produce the same clause twice, and the result keeps one.
\<close>

theorem duplicates_are_dropped:
  "distinct (param_sql_list self cu)
   \<and> set (param_sql_list self cu) = set (collected_sql_list self cu)
   \<and> (\<forall>c \<in> set (collected_sql_list self cu). count_list (param_sql_list self cu) c = 1)
   \<and> (\<forall>empty_or holds row.
        or_admits empty_or holds (param_sql_list self cu) row
        = or_admits empty_or holds (collected_sql_list self cu) row)
   \<and> (\<not> admin cu \<and> role cu = [r1, r2] \<and> data_scope r1 = DATA_SCOPE_DEPT
        \<and> data_scope r2 = DATA_SCOPE_DEPT
      \<longrightarrow> collected_sql_list self cu = [sql_dept self (dept_id cu), sql_dept self (dept_id cu)]
          \<and> param_sql_list self cu = [sql_dept self (dept_id cu)])"
proof -
  have d: "distinct (param_sql_list self cu)"
    by (simp add: param_sql_list_def)
  have s: "set (param_sql_list self cu) = set (collected_sql_list self cu)"
    by (simp add: param_sql_list_def)
  have c: "\<forall>c \<in> set (collected_sql_list self cu). count_list (param_sql_list self cu) c = 1"
    using d s by (simp add: count_list_distinct)
  have o: "or_admits empty_or holds (param_sql_list self cu) row
        = or_admits empty_or holds (collected_sql_list self cu) row"
    for empty_or and holds :: "string \<Rightarrow> 'a \<Rightarrow> bool" and row
    unfolding param_sql_list_def by (rule or_admits_dict_fromkeys)
  have e: "collected_sql_list self cu = [sql_dept self (dept_id cu), sql_dept self (dept_id cu)]
          \<and> param_sql_list self cu = [sql_dept self (dept_id cu)]"
    if "\<not> admin cu" "role cu = [r1, r2]" "data_scope r1 = DATA_SCOPE_DEPT"
       "data_scope r2 = DATA_SCOPE_DEPT"
    using that
    by (simp add: param_sql_list_def collected_sql_list_def role_sql_def DATA_SCOPE_defs
        dict_fromkeys_def)
  from d s c o e show ?thesis by blast
qed

theorem duplicates_are_dropped_witness:
  "\<not> admin (sample_user False [\<lparr>role_id = 10, data_scope = ''3''\<rparr>, \<lparr>role_id = 12, data_scope = ''3''\<rparr>])
   \<and> collected_sql_list SysUser_scope
       (sample_user False [\<lparr>role_id = 10, data_scope = ''3''\<rparr>, \<lparr>role_id = 12, data_scope = ''3''\<rparr>])
     = [''SysUser.dept_id == 5 if hasattr(SysUser, 'dept_id') else 1 == 0'',
        ''SysUser.dept_id == 5 if hasattr(SysUser, 'dept_id') else 1 == 0'']
   \<and> param_sql_list SysUser_scope
       (sample_user False [\<lparr>role_id = 10, data_scope = ''3''\<rparr>, \<lparr>role_id = 12, data_scope = ''3''\<rparr>])
     = [''SysUser.dept_id == 5 if hasattr(SysUser, 'dept_id') else 1 == 0'']
   \<and> GetDataScope_call SysUser_scope
       (sample_user False [\<lparr>role_id = 10, data_scope = ''3''\<rparr>, \<lparr>role_id = 12, data_scope = ''3''\<rparr>])
     = ''or_(SysUser.dept_id == 5 if hasattr(SysUser, 'dept_id') else 1 == 0)''"
proof -
  let ?r1 = "\<lparr>role_id = 10, data_scope = ''3''\<rparr>"
  let ?r2 = "\<lparr>role_id = 12, data_scope = ''3''\<rparr>"
  let ?cu = "sample_user False [?r1, ?r2]"
  have a: "\<not> admin ?cu" and b: "role ?cu = [?r1, ?r2]" and k: "dept_id ?cu = Some 5"
    by (simp_all add: sample_user_def)
  have s: "data_scope ?r1 = DATA_SCOPE_DEPT" "data_scope ?r2 = DATA_SCOPE_DEPT"
    by (simp_all add: DATA_SCOPE_defs)
  from duplicates_are_dropped
    [where self = SysUser_scope and cu = ?cu and ?r1.0 = ?r1 and ?r2.0 = ?r2]
  have "\<not> admin ?cu \<and> role ?cu = [?r1, ?r2] \<and> data_scope ?r1 = DATA_SCOPE_DEPT
        \<and> data_scope ?r2 = DATA_SCOPE_DEPT
      \<longrightarrow> collected_sql_list SysUser_scope ?cu
            = [sql_dept SysUser_scope (dept_id ?cu), sql_dept SysUser_scope (dept_id ?cu)]
          \<and> param_sql_list SysUser_scope ?cu = [sql_dept SysUser_scope (dept_id ?cu)]"
    by (elim conjE)
  moreover have "\<not> admin ?cu \<and> role ?cu = [?r1, ?r2] \<and> data_scope ?r1 = DATA_SCOPE_DEPT
        \<and> data_scope ?r2 = DATA_SCOPE_DEPT"
    using a b s by (intro conjI)
  ultimately have lp: "collected_sql_list SysUser_scope ?cu
            = [sql_dept SysUser_scope (dept_id ?cu), sql_dept SysUser_scope (dept_id ?cu)]
          \<and> param_sql_list SysUser_scope ?cu = [sql_dept SysUser_scope (dept_id ?cu)]"
    by (rule mp)
  then have l: "collected_sql_list SysUser_scope ?cu
             = [sql_dept SysUser_scope (dept_id ?cu), sql_dept SysUser_scope (dept_id ?cu)]"
    and p: "param_sql_list SysUser_scope ?cu = [sql_dept SysUser_scope (dept_id ?cu)]"
    by (rule conjunct1, rule conjunct2)
  have t: "sql_dept SysUser_scope (Some 5)
             = ''SysUser.dept_id == 5 if hasattr(SysUser, 'dept_id') else 1 == 0''"
    by (simp add: sql_dept_def SysUser_scope_def py_str_opt_def py_str_int_def str_nat.simps
        digit_char_def)
  from a l p show ?thesis
    by (simp add: GetDataScope_call_def k t)
qed

subsection \<open>The shape of the returned text\<close>

text \<open>
  C10. The returned text is \<^verbatim>\<open>or_(\<close>, the operands joined by a comma and a
  space, and \<^verbatim>\<open>)\<close>. Every operand is one of the clause templates, written for
  this user. The operands are never more than the roles the user holds. When the test of
  line 85 succeeds at some role (the user holds a role and is an administrator, or
  holds a role of scope ALL) there is exactly one operand, \<^verbatim>\<open>1 == 1\<close>; a user
  without roles gets no operand.
\<close>

theorem call_shape:
  "GetDataScope_call self cu = ''or_('' @ py_join '', '' (param_sql_list self cu) @ '')''
   \<and> take 4 (GetDataScope_call self cu) = ''or_(''
   \<and> last (GetDataScope_call self cu) = CHR '')''
   \<and> list_all (is_clause_template self cu) (param_sql_list self cu)
   \<and> length (param_sql_list self cu) \<le> length (role cu)
   \<and> (short_circuits cu (role cu) \<longrightarrow> param_sql_list self cu = [''1 == 1''])
   \<and> (\<not> admin cu \<and> role cu = [] \<longrightarrow> param_sql_list self cu = [])"
  using param_sql_list_templates [of self cu] param_sql_list_length [of self cu]
  by (simp add: GetDataScope_call_def param_sql_list_break param_sql_list_no_roles sql_true_def)

theorem call_shape_witness:
  "short_circuits (sample_user True [\<lparr>role_id = 10, data_scope = ''3''\<rparr>])
     (role (sample_user True [\<lparr>role_id = 10, data_scope = ''3''\<rparr>]))
   \<and> param_sql_list SysUser_scope (sample_user True [\<lparr>role_id = 10, data_scope = ''3''\<rparr>])
     = [''1 == 1'']
   \<and> \<not> admin (sample_user False []) \<and> role (sample_user False []) = []
   \<and> param_sql_list SysUser_scope (sample_user False []) = []
   \<and> GetDataScope_call SysUser_scope
       (sample_user False [\<lparr>role_id = 10, data_scope = ''3''\<rparr>, \<lparr>role_id = 11, data_scope = ''5''\<rparr>,
                           \<lparr>role_id = 12, data_scope = ''3''\<rparr>])
     = ''or_(SysUser.dept_id == 5 if hasattr(SysUser, 'dept_id') else 1 == 0, SysUser.user_id == 2 if hasattr(SysUser, 'user_id') else 1 == 0)''
   \<and> length (param_sql_list SysUser_scope
       (sample_user False [\<lparr>role_id = 10, data_scope = ''3''\<rparr>, \<lparr>role_id = 11, data_scope = ''5''\<rparr>,
                           \<lparr>role_id = 12, data_scope = ''3''\<rparr>])) = 2"
proof -
  let ?a = "sample_user True [\<lparr>role_id = 10, data_scope = ''3''\<rparr>]"
  let ?n = "sample_user False []"
  let ?m = "sample_user False [\<lparr>role_id = 10, data_scope = ''3''\<rparr>, \<lparr>role_id = 11, data_scope = ''5''\<rparr>,
                               \<lparr>role_id = 12, data_scope = ''3''\<rparr>]"
  have sc: "short_circuits ?a (role ?a)"
    by (simp add: short_circuits_def sample_user_def)
  have nr: "\<not> admin ?n" "role ?n = []" by (simp_all add: sample_user_def)
  from call_shape [where self = SysUser_scope and cu = ?a]
  have "short_circuits ?a (role ?a) \<longrightarrow> param_sql_list SysUser_scope ?a = [''1 == 1'']"
    by (elim conjE)
  then have one: "param_sql_list SysUser_scope ?a = [''1 == 1'']"
    using sc by (rule mp)
  from call_shape [where self = SysUser_scope and cu = ?n]
  have "\<not> admin ?n \<and> role ?n = [] \<longrightarrow> param_sql_list SysUser_scope ?n = []"
    by (elim conjE)
  moreover from nr have "\<not> admin ?n \<and> role ?n = []" by (intro conjI)
  ultimately have none: "param_sql_list SysUser_scope ?n = []"
    by (rule mp)
  have ops: "param_sql_list SysUser_scope ?m
      = [''SysUser.dept_id == 5 if hasattr(SysUser, 'dept_id') else 1 == 0'',
         ''SysUser.user_id == 2 if hasattr(SysUser, 'user_id') else 1 == 0'']"
    by (simp add: eval_defs sample_user_def)
  from call_shape [where self = SysUser_scope and cu = ?m]
  have "GetDataScope_call SysUser_scope ?m
      = ''or_('' @ py_join '', '' (param_sql_list SysUser_scope ?m) @ '')''" by (elim conjE)
  then have call: "GetDataScope_call SysUser_scope ?m
     = ''or_(SysUser.dept_id == 5 if hasattr(SysUser, 'dept_id') else 1 == 0, SysUser.user_id == 2 if hasattr(SysUser, 'user_id') else 1 == 0)''"
    by (simp add: ops)
  from sc one nr none call ops show ?thesis by simp
qed

end
